theory Spec2Isabelle
  imports Complex_Main "HOL-Library.AList"
begin

section \<open>The MedMNIST3D training and evaluation driver\<close>

text \<open>
  A shallow embedding of \<^verbatim>\<open>MedMNIST3D/train_and_eval_pytorch.py\<close>: the functions
  \<^verbatim>\<open>train\<close>, \<^verbatim>\<open>test\<close> and \<^verbatim>\<open>main\<close>.

  The tensor library, the dataset classes, the network and the metric evaluator are
  external collaborators. They enter the model as the fields of an environment record;
  each is taken to return normally. Python floats are idealised as \<^typ>\<open>real\<close>: the
  driver only adds, divides and compares them. Everything the driver does to the outside
  world (calls on the model, the optimizer, the scheduler, the evaluator, the
  TensorBoard writer and the file system) is appended, in program order, to a trace of
  events. Console output is left out.
\<close>

subsection \<open>Errors, splits, events\<close>

datatype error = ZeroDivisionError | NotImplementedError

text \<open>The three evaluators of \<^verbatim>\<open>main\<close> (lines 100-102) are told apart by their split.\<close>

datatype split = TrainSplit | ValSplit | TestSplit

datatype ('m, 'r) event =
    LoadStateDict string
    \<comment> \<open>\<^verbatim>\<open>model.load_state_dict(torch.load(model_path)['net'])\<close>\<close>
  | ModelTrain
    \<comment> \<open>\<^verbatim>\<open>model.train()\<close>, the first statement of \<^verbatim>\<open>train\<close>\<close>
  | ModelEval
    \<comment> \<open>\<^verbatim>\<open>model.eval()\<close>, the first statement of \<^verbatim>\<open>test\<close>\<close>
  | ZeroGrad
    \<comment> \<open>\<^verbatim>\<open>optimizer.zero_grad()\<close>\<close>
  | AddScalar string real nat
    \<comment> \<open>\<^verbatim>\<open>writer.add_scalar(tag, value, global_step)\<close>\<close>
  | OptimizerStep
    \<comment> \<open>\<^verbatim>\<open>loss.backward(); optimizer.step()\<close>\<close>
  | Evaluate split "'r list" "string option" string
    \<comment> \<open>\<^verbatim>\<open>evaluator.evaluate(y_score, save_folder, run)\<close> on the evaluator of that split\<close>
  | SchedulerStep
    \<comment> \<open>\<^verbatim>\<open>scheduler.step()\<close>\<close>
  | WriterOpen string
    \<comment> \<open>\<^verbatim>\<open>SummaryWriter(log_dir=...)\<close>\<close>
  | Compare nat real real
    \<comment> \<open>the test \<^verbatim>\<open>cur_auc > best_auc\<close> of line 164: epoch, \<^verbatim>\<open>cur_auc\<close>, \<^verbatim>\<open>best_auc\<close>\<close>
  | TorchSave string 'm
    \<comment> \<open>\<^verbatim>\<open>torch.save({'net': parameters}, path)\<close>\<close>
  | AppendLog string string "real list" "real list" "real list"
    \<comment> \<open>the block appended to the log file: path, dataset name, the three metric lists\<close>
  | WriterClose
    \<comment> \<open>\<^verbatim>\<open>writer.close()\<close>\<close>

subsection \<open>External collaborators\<close>

text \<open>
  \<open>'m\<close> is a parameter set of the network, \<open>'b\<close> a batch \<^verbatim>\<open>(inputs, targets)\<close>,
  \<open>'o\<close> the internal state of the Adam optimizer, \<open>'r\<close> a row of class probabilities.
\<close>

record ('m, 'b, 'o, 'r) env =
  build :: "string \<Rightarrow> 'm"
    \<comment> \<open>lines 78-98: the backbone named by \<^verbatim>\<open>model_flag\<close>, converted and moved to the device\<close>
  load_state_dict :: "string \<Rightarrow> 'm \<Rightarrow> 'm"
    \<comment> \<open>line 107: the parameters after loading the checkpoint at that path\<close>
  adam_init :: "'m \<Rightarrow> 'o"
    \<comment> \<open>line 122: the fresh state of \<^verbatim>\<open>torch.optim.Adam\<close>\<close>
  loss_train :: "'m \<Rightarrow> 'b \<Rightarrow> real"
    \<comment> \<open>\<^verbatim>\<open>criterion(model(inputs), targets).item()\<close> in training mode\<close>
  opt_update :: "real \<Rightarrow> 'o \<Rightarrow> 'm \<Rightarrow> 'b \<Rightarrow> 'o \<times> 'm"
    \<comment> \<open>\<^verbatim>\<open>loss.backward(); optimizer.step()\<close> at a learning rate: new optimizer state, new parameters\<close>
  loss_eval :: "'m \<Rightarrow> 'b \<Rightarrow> real"
    \<comment> \<open>\<^verbatim>\<open>criterion(model(inputs), targets).item()\<close> in evaluation mode\<close>
  scores :: "'m \<Rightarrow> 'b \<Rightarrow> 'r list"
    \<comment> \<open>the softmax rows of one batch in evaluation mode\<close>
  evaluate :: "split \<Rightarrow> 'r list \<Rightarrow> real \<times> real"
    \<comment> \<open>\<^verbatim>\<open>(auc, acc)\<close> as computed by the evaluator of that split\<close>

subsection \<open>Mean of a list of losses\<close>

text \<open>
  \<^verbatim>\<open>sum(total_loss)\<close> adds from the left, starting at 0.
  \<^verbatim>\<open>sum(total_loss) / len(total_loss)\<close> raises \<^verbatim>\<open>ZeroDivisionError\<close> on the empty list.
\<close>

definition py_sum :: "real list \<Rightarrow> real" where
  "py_sum xs = foldl (+) 0 xs"

definition mean_loss :: "real list \<Rightarrow> error + real" where
  "mean_loss total_loss =
     (if length total_loss = 0 then Inl ZeroDivisionError
      else Inr (py_sum total_loss / real (length total_loss)))"

subsection \<open>The state of a training run\<close>

text \<open>
  The mutable objects and variables of \<^verbatim>\<open>main\<close> from line 122 on, the global
  \<^verbatim>\<open>iteration\<close>, and the trace. \<^verbatim>\<open>deepcopy(model)\<close> copies the parameters, so
  \<open>best_model\<close> is a value of its own and never aliases \<open>model\<close>.
\<close>

record ('m, 'o, 'r) lstate =
  model :: 'm
  ostate :: 'o
  lr :: real
  last_epoch :: nat
  iteration :: nat
  log_dict :: "(string \<times> real) list"
  best_auc :: real
  best_epoch :: nat
  best_model :: 'm
  trace :: "('m, 'r) event list"

subsection \<open>\<^verbatim>\<open>train\<close> (lines 203-223)\<close>

fun train_loop ::
  "('m, 'b, 'o, 'r) env \<Rightarrow> 'b list \<Rightarrow> real list \<Rightarrow> ('m, 'o, 'r) lstate
     \<Rightarrow> real list \<times> ('m, 'o, 'r) lstate" where
  "train_loop E [] total_loss st = (total_loss, st)"
| "train_loop E (b # bs) total_loss st =
     (let st1 = st\<lparr>trace := trace st @ [ZeroGrad]\<rparr>;
          loss = loss_train E (model st1) b;
          total_loss' = total_loss @ [loss];
          st2 = st1\<lparr>trace := trace st1 @ [AddScalar ''train_loss_logs'' loss (iteration st1)]\<rparr>;
          st3 = st2\<lparr>iteration := iteration st2 + 1\<rparr>;
          (os, m) = opt_update E (lr st3) (ostate st3) (model st3) b;
          st4 = st3\<lparr>model := m, ostate := os, trace := trace st3 @ [OptimizerStep]\<rparr>
      in train_loop E bs total_loss' st4)"

definition train ::
  "('m, 'b, 'o, 'r) env \<Rightarrow> 'b list \<Rightarrow> ('m, 'o, 'r) lstate
     \<Rightarrow> (error + real) \<times> ('m, 'o, 'r) lstate" where
  "train E train_loader st =
     (let st0 = st\<lparr>trace := trace st @ [ModelTrain]\<rparr>;
          (total_loss, st1) = train_loop E train_loader [] st0
      in (mean_loss total_loss, st1))"

text \<open>
  The per-batch losses of one epoch in traversal order, as the specification speaks of
  them: the loss of each batch under the parameters the preceding updates have left.
\<close>

fun batch_losses ::
  "('m, 'b, 'o, 'r) env \<Rightarrow> real \<Rightarrow> 'b list \<Rightarrow> 'o \<Rightarrow> 'm \<Rightarrow> real list" where
  "batch_losses E r [] os m = []"
| "batch_losses E r (b # bs) os m =
     loss_train E m b #
       (case opt_update E r os m b of (os', m') \<Rightarrow> batch_losses E r bs os' m')"

text \<open>
  The optimizer state and the parameters that the updates of one epoch leave, and the
  events of those updates, the first batch being logged under global step \<open>i\<close>.
\<close>

fun trained ::
  "('m, 'b, 'o, 'r) env \<Rightarrow> real \<Rightarrow> 'b list \<Rightarrow> 'o \<Rightarrow> 'm \<Rightarrow> 'o \<times> 'm" where
  "trained E r [] os m = (os, m)"
| "trained E r (b # bs) os m =
     (case opt_update E r os m b of (os', m') \<Rightarrow> trained E r bs os' m')"

fun train_events ::
  "('m, 'b, 'o, 'r) env \<Rightarrow> real \<Rightarrow> 'b list \<Rightarrow> 'o \<Rightarrow> 'm \<Rightarrow> nat \<Rightarrow> ('m, 'r) event list" where
  "train_events E r [] os m i = []"
| "train_events E r (b # bs) os m i =
     [ZeroGrad, AddScalar ''train_loss_logs'' (loss_train E m b) i, OptimizerStep] @
       (case opt_update E r os m b of (os', m') \<Rightarrow> train_events E r bs os' m' (i + 1))"

subsection \<open>\<^verbatim>\<open>test\<close> (lines 228-254)\<close>

fun test_loop ::
  "('m, 'b, 'o, 'r) env \<Rightarrow> 'm \<Rightarrow> 'b list \<Rightarrow> real list \<Rightarrow> 'r list
     \<Rightarrow> real list \<times> 'r list" where
  "test_loop E m [] total_loss y_score = (total_loss, y_score)"
| "test_loop E m (b # bs) total_loss y_score =
     test_loop E m bs (total_loss @ [loss_eval E m b]) (y_score @ scores E m b)"

text \<open>
  \<^verbatim>\<open>save_folder\<close> defaults to \<^verbatim>\<open>None\<close>. The evaluator is called (line 250) before the mean
  loss is computed (line 252), so its call is in the trace also when the division raises.
\<close>

definition test ::
  "('m, 'b, 'o, 'r) env \<Rightarrow> 'm \<Rightarrow> split \<Rightarrow> 'b list \<Rightarrow> string \<Rightarrow> string option
     \<Rightarrow> ('m, 'r) event list \<Rightarrow> (error + real list) \<times> ('m, 'r) event list" where
  "test E m evaluator data_loader run save_folder tr =
     (let tr1 = tr @ [ModelEval];
          (total_loss, y_score) = test_loop E m data_loader [] [];
          (auc, acc) = evaluate E evaluator y_score;
          tr2 = tr1 @ [Evaluate evaluator y_score save_folder run]
      in case mean_loss total_loss of
           Inl e \<Rightarrow> (Inl e, tr2)
         | Inr test_loss \<Rightarrow> (Inr [test_loss, auc, acc], tr2))"

subsection \<open>Configuration and data loaders\<close>

text \<open>
  The arguments of \<^verbatim>\<open>main\<close> the modelled part reads. \<open>output_root\<close> is the run's output
  directory, that is the value the variable holds after line 48 has appended the dataset
  name and the time stamp.
\<close>

record config =
  data_flag :: string
  output_root :: string
  num_epochs :: int
  model_flag :: string
  model_path :: "string option"
  run :: string

text \<open>
  The batch sequences the four \<^verbatim>\<open>DataLoader\<close>s yield. The training loader shuffles, so
  each traversal may yield another sequence: \<open>train_loader L k\<close> is the sequence of the
  \<open>k\<close>-th traversal. The evaluation loaders do not shuffle.
\<close>

record 'b loaders =
  train_loader :: "nat \<Rightarrow> 'b list"
  train_loader_at_eval :: "'b list"
  val_loader :: "'b list"
  test_loader :: "'b list"

text \<open>\<^verbatim>\<open>os.path.join\<close> of two components on a POSIX system.\<close>

definition path_join :: "string \<Rightarrow> string \<Rightarrow> string" where
  "path_join a b =
     (if b \<noteq> [] \<and> hd b = CHR ''/'' then b
      else if a = [] \<or> last a = CHR ''/'' then a @ b
      else a @ ''/'' @ b)"

subsection \<open>Learning rate and scheduler (lines 24-26, 122-123)\<close>

definition initial_lr :: "string \<Rightarrow> real" where
  "initial_lr flag = (if flag \<notin> set [''vit3d''] then 0.001 else 0.0001)"

definition gamma :: real where
  "gamma = 0.1"

definition milestones :: "int \<Rightarrow> real list" where
  "milestones n = [0.5 * real_of_int n, 0.75 * real_of_int n]"

text \<open>
  Modelled from the spec: \<^verbatim>\<open>torch.optim.lr_scheduler.MultiStepLR\<close> is library code, not
  under src/. The specification has it decay the learning rate multiplicatively by the
  fixed factor at the epoch milestones. The model follows the library: the scheduler
  counts its \<^verbatim>\<open>step\<close> calls in \<open>last_epoch\<close>, starting at 0, and a call that brings the
  counter to a milestone multiplies the learning rate by the factor once for every
  occurrence of that milestone in the list; any other call leaves the rate alone. A
  milestone that is not a whole number is never reached.
\<close>

definition scheduler_step ::
  "real list \<Rightarrow> real \<Rightarrow> ('m, 'o, 'r) lstate \<Rightarrow> ('m, 'o, 'r) lstate" where
  "scheduler_step ms g st =
     (let e = last_epoch st + 1
      in st\<lparr>last_epoch := e,
            lr := (if real e \<notin> set ms then lr st else lr st * g ^ count_list ms (real e)),
            trace := trace st @ [SchedulerStep]\<rparr>)"

subsection \<open>The log dictionary (lines 126-130, 153-161)\<close>

definition logs :: "string list" where
  "logs = [''loss'', ''auc'', ''acc'']"

definition train_logs :: "string list" where
  "train_logs = map ((@) ''train_'') logs"

definition val_logs :: "string list" where
  "val_logs = map ((@) ''val_'') logs"

definition test_logs :: "string list" where
  "test_logs = map ((@) ''test_'') logs"

text \<open>
  \<^verbatim>\<open>for i, key in enumerate(keys): log_dict[key] = metrics[i]\<close> on an ordered dictionary.
  The metric lists are the three-element results of \<^verbatim>\<open>test\<close>.
\<close>

definition update_logs ::
  "string list \<Rightarrow> real list \<Rightarrow> (string \<times> real) list \<Rightarrow> (string \<times> real) list" where
  "update_logs keys metrics d =
     fold (\<lambda>(i, key) d'. AList.update key (metrics ! i) d') (enumerate 0 keys) d"

subsection \<open>\<^verbatim>\<open>main\<close> (lines 22-194)\<close>

text \<open>
  Three consecutive calls of \<^verbatim>\<open>test\<close>, on the train-for-eval, validation and test
  loaders, each with its own evaluator. The source writes them out three times: at lines
  109-111, 147-149 and 180-182.
\<close>

definition eval_splits ::
  "('m, 'b, 'o, 'r) env \<Rightarrow> 'm \<Rightarrow> 'b loaders \<Rightarrow> string \<Rightarrow> string option
     \<Rightarrow> ('m, 'r) event list
     \<Rightarrow> (error + real list \<times> real list \<times> real list) \<times> ('m, 'r) event list" where
  "eval_splits E m L r save_folder tr =
     (case test E m TrainSplit (train_loader_at_eval L) r save_folder tr of
        (Inl e, tr1) \<Rightarrow> (Inl e, tr1)
      | (Inr train_metrics, tr1) \<Rightarrow>
          (case test E m ValSplit (val_loader L) r save_folder tr1 of
             (Inl e, tr2) \<Rightarrow> (Inl e, tr2)
           | (Inr val_metrics, tr2) \<Rightarrow>
               (case test E m TestSplit (test_loader L) r save_folder tr2 of
                  (Inl e, tr3) \<Rightarrow> (Inl e, tr3)
                | (Inr test_metrics, tr3) \<Rightarrow>
                    (Inr (train_metrics, val_metrics, test_metrics), tr3))))"

text \<open>Lines 106-115: the evaluation of a loaded checkpoint.\<close>

definition resume_eval ::
  "('m, 'b, 'o, 'r) env \<Rightarrow> config \<Rightarrow> 'b loaders \<Rightarrow> 'm \<Rightarrow> ('m, 'r) event list
     \<Rightarrow> (error + unit) \<times> 'm \<times> ('m, 'r) event list" where
  "resume_eval E cfg L m tr =
     (case model_path cfg of
        None \<Rightarrow> (Inr (), m, tr)
      | Some p \<Rightarrow>
          (let m1 = load_state_dict E p m;
               tr1 = tr @ [LoadStateDict p]
           in case eval_splits E m1 L (run cfg) (Some (output_root cfg)) tr1 of
                (Inl e, tr2) \<Rightarrow> (Inl e, m1, tr2)
              | (Inr metrics, tr2) \<Rightarrow> (Inr (), m1, tr2)))"

text \<open>Lines 122-140: optimizer, scheduler, log dictionary, writer, best-model variables.\<close>

definition init_train ::
  "('m, 'b, 'o, 'r) env \<Rightarrow> config \<Rightarrow> 'm \<Rightarrow> ('m, 'r) event list \<Rightarrow> ('m, 'o, 'r) lstate" where
  "init_train E cfg m tr =
     \<lparr>model = m,
      ostate = adam_init E m,
      lr = initial_lr (model_flag cfg),
      last_epoch = 0,
      iteration = 0,
      log_dict = map (\<lambda>key. (key, 0)) (train_logs @ val_logs @ test_logs),
      best_auc = 0,
      best_epoch = 0,
      best_model = m,
      trace = tr @ [WriterOpen (path_join (output_root cfg) ''Tensorboard_Results'')]\<rparr>"

text \<open>Lines 163-170.\<close>

definition checkpoint_check ::
  "nat \<Rightarrow> real \<Rightarrow> ('m, 'o, 'r) lstate \<Rightarrow> ('m, 'o, 'r) lstate" where
  "checkpoint_check epoch cur_auc st =
     (let st1 = st\<lparr>trace := trace st @ [Compare epoch cur_auc (best_auc st)]\<rparr>
      in if cur_auc > best_auc st1
         then st1\<lparr>best_epoch := epoch, best_auc := cur_auc, best_model := model st1\<rparr>
         else st1)"

text \<open>Lines 153-161: the metrics go into the log dictionary, the dictionary to the writer.\<close>

definition log_metrics ::
  "nat \<Rightarrow> real list \<Rightarrow> real list \<Rightarrow> real list \<Rightarrow> ('m, 'o, 'r) lstate
     \<Rightarrow> ('m, 'o, 'r) lstate" where
  "log_metrics epoch train_metrics val_metrics test_metrics st =
     (let st1 = st\<lparr>log_dict :=
                  update_logs test_logs test_metrics
                    (update_logs val_logs val_metrics
                      (update_logs train_logs train_metrics (log_dict st)))\<rparr>
      in st1\<lparr>trace := trace st1 @ map (\<lambda>(key, v). AddScalar key v epoch) (log_dict st1)\<rparr>)"

text \<open>Lines 145-170: the body of the epoch loop.\<close>

definition epoch_body ::
  "('m, 'b, 'o, 'r) env \<Rightarrow> config \<Rightarrow> 'b loaders \<Rightarrow> nat \<Rightarrow> ('m, 'o, 'r) lstate
     \<Rightarrow> (error + unit) \<times> ('m, 'o, 'r) lstate" where
  "epoch_body E cfg L epoch st =
     (case train E (train_loader L epoch) st of
        (Inl e, st1) \<Rightarrow> (Inl e, st1)
      | (Inr train_loss, st1) \<Rightarrow>
          (case eval_splits E (model st1) L (run cfg) None (trace st1) of
             (Inl e, tr) \<Rightarrow> (Inl e, st1\<lparr>trace := tr\<rparr>)
           | (Inr (train_metrics, val_metrics, test_metrics), tr) \<Rightarrow>
               (let st2 = scheduler_step (milestones (num_epochs cfg)) gamma (st1\<lparr>trace := tr\<rparr>);
                    st3 = log_metrics epoch train_metrics val_metrics test_metrics st2;
                    cur_auc = val_metrics ! 1
                in (Inr (), checkpoint_check epoch cur_auc st3))))"

text \<open>Line 142: the loop over \<^verbatim>\<open>range(num_epochs)\<close>; an exception ends it.\<close>

fun epochs ::
  "('m, 'b, 'o, 'r) env \<Rightarrow> config \<Rightarrow> 'b loaders \<Rightarrow> nat list \<Rightarrow> ('m, 'o, 'r) lstate
     \<Rightarrow> (error + unit) \<times> ('m, 'o, 'r) lstate" where
  "epochs E cfg L [] st = (Inr (), st)"
| "epochs E cfg L (epoch # es) st =
     (case epoch_body E cfg L epoch st of
        (Inl e, st1) \<Rightarrow> (Inl e, st1)
      | (Inr u, st1) \<Rightarrow> epochs E cfg L es st1)"

text \<open>Lines 172-194: checkpoint, final evaluation, log file.\<close>

definition finish ::
  "('m, 'b, 'o, 'r) env \<Rightarrow> config \<Rightarrow> 'b loaders \<Rightarrow> ('m, 'o, 'r) lstate
     \<Rightarrow> (error + unit) \<times> ('m, 'r) event list" where
  "finish E cfg L st =
     (let path = path_join (output_root cfg) ''best_model.pth'';
          tr1 = trace st @ [TorchSave path (model st)]
      in case eval_splits E (best_model st) L (run cfg) (Some (output_root cfg)) tr1 of
           (Inl e, tr2) \<Rightarrow> (Inl e, tr2)
         | (Inr (train_metrics, val_metrics, test_metrics), tr2) \<Rightarrow>
             (Inr (),
              tr2 @ [AppendLog (path_join (output_root cfg) (data_flag cfg @ ''_log.txt''))
                       (data_flag cfg) train_metrics val_metrics test_metrics,
                     WriterClose]))"

text \<open>
  \<^verbatim>\<open>range(num_epochs)\<close> is empty for a negative count. The state the loop leaves is a
  function of its own, so that properties of the variables after the loop can be stated.
\<close>

definition epoch_range :: "int \<Rightarrow> nat list" where
  "epoch_range n = [0..<nat n]"

definition start_state ::
  "('m, 'b, 'o, 'r) env \<Rightarrow> config \<Rightarrow> 'b loaders \<Rightarrow> ('m, 'o, 'r) lstate" where
  "start_state E cfg L =
     (case resume_eval E cfg L (build E (model_flag cfg)) [] of
        (r, m, tr) \<Rightarrow> init_train E cfg m tr)"

definition after_loop ::
  "('m, 'b, 'o, 'r) env \<Rightarrow> config \<Rightarrow> 'b loaders
     \<Rightarrow> (error + unit) \<times> ('m, 'o, 'r) lstate" where
  "after_loop E cfg L = epochs E cfg L (epoch_range (num_epochs cfg)) (start_state E cfg L)"

definition main ::
  "('m, 'b, 'o, 'r) env \<Rightarrow> config \<Rightarrow> 'b loaders \<Rightarrow> (error + unit) \<times> ('m, 'r) event list" where
  "main E cfg L =
     (if model_flag cfg \<notin> set [''resnet18'', ''resnet50'', ''vit3d'']
      then (Inl NotImplementedError, [])
      else
        (case resume_eval E cfg L (build E (model_flag cfg)) [] of
           (Inl e, m, tr) \<Rightarrow> (Inl e, tr)
         | (Inr u, m, tr) \<Rightarrow>
             if num_epochs cfg = 0 then (Inr (), tr)
             else
               (case after_loop E cfg L of
                  (Inl e, st) \<Rightarrow> (Inl e, trace st)
                | (Inr u', st) \<Rightarrow> finish E cfg L st)))"

subsection \<open>Reading a trace\<close>

fun is_train_call :: "('m, 'r) event \<Rightarrow> bool" where
  "is_train_call ModelTrain = True"
| "is_train_call ev = False"

fun is_optimizer_step :: "('m, 'r) event \<Rightarrow> bool" where
  "is_optimizer_step OptimizerStep = True"
| "is_optimizer_step ev = False"

fun is_compare :: "('m, 'r) event \<Rightarrow> bool" where
  "is_compare (Compare epoch cur best) = True"
| "is_compare ev = False"

fun is_save :: "('m, 'r) event \<Rightarrow> bool" where
  "is_save (TorchSave path m) = True"
| "is_save ev = False"

text \<open>The evaluator calls of a trace, in order: split and \<^verbatim>\<open>save_folder\<close> argument.\<close>

fun eval_calls :: "('m, 'r) event list \<Rightarrow> (split \<times> string option) list" where
  "eval_calls [] = []"
| "eval_calls (Evaluate sp ys save_folder r # tr) = (sp, save_folder) # eval_calls tr"
| "eval_calls (ev # tr) = eval_calls tr"

text \<open>The global steps under which \<^verbatim>\<open>train\<close> logged its per-batch losses, in order.\<close>

fun loss_steps :: "('m, 'r) event list \<Rightarrow> nat list" where
  "loss_steps [] = []"
| "loss_steps (AddScalar tag v step # tr) =
     (if tag = ''train_loss_logs'' then step # loss_steps tr else loss_steps tr)"
| "loss_steps (ev # tr) = loss_steps tr"

text \<open>The checkpoints written, in order: path and parameters.\<close>

fun saved :: "('m, 'r) event list \<Rightarrow> (string \<times> 'm) list" where
  "saved [] = []"
| "saved (TorchSave path m # tr) = (path, m) # saved tr"
| "saved (ev # tr) = saved tr"

text \<open>One full evaluation pass: the three splits in the order of the source.\<close>

definition pass :: "string option \<Rightarrow> (split \<times> string option) list" where
  "pass save_folder = [(TrainSplit, save_folder), (ValSplit, save_folder), (TestSplit, save_folder)]"

subsection \<open>What one call of \<^verbatim>\<open>test\<close> computes and emits\<close>

definition all_scores :: "('m, 'b, 'o, 'r) env \<Rightarrow> 'm \<Rightarrow> 'b list \<Rightarrow> 'r list" where
  "all_scores E m bs = concat (map (scores E m) bs)"

definition metrics :: "('m, 'b, 'o, 'r) env \<Rightarrow> 'm \<Rightarrow> split \<Rightarrow> 'b list \<Rightarrow> real list" where
  "metrics E m sp bs =
     [sum_list (map (loss_eval E m) bs) / real (length bs),
      fst (evaluate E sp (all_scores E m bs)),
      snd (evaluate E sp (all_scores E m bs))]"

definition test_events ::
  "('m, 'b, 'o, 'r) env \<Rightarrow> 'm \<Rightarrow> split \<Rightarrow> 'b list \<Rightarrow> string \<Rightarrow> string option
     \<Rightarrow> ('m, 'r) event list" where
  "test_events E m sp bs r save_folder = [ModelEval, Evaluate sp (all_scores E m bs) save_folder r]"

definition eval_events ::
  "('m, 'b, 'o, 'r) env \<Rightarrow> 'm \<Rightarrow> 'b loaders \<Rightarrow> string \<Rightarrow> string option
     \<Rightarrow> ('m, 'r) event list" where
  "eval_events E m L r save_folder =
     test_events E m TrainSplit (train_loader_at_eval L) r save_folder @
     test_events E m ValSplit (val_loader L) r save_folder @
     test_events E m TestSplit (test_loader L) r save_folder"

definition eval_loaders_nonempty :: "'b loaders \<Rightarrow> bool" where
  "eval_loaders_nonempty L \<longleftrightarrow>
     train_loader_at_eval L \<noteq> [] \<and> val_loader L \<noteq> [] \<and> test_loader L \<noteq> []"

text \<open>The validation AUC the evaluation routine reports for a parameter set.\<close>

definition val_auc :: "('m, 'b, 'o, 'r) env \<Rightarrow> 'b loaders \<Rightarrow> 'm \<Rightarrow> real" where
  "val_auc E L m = fst (evaluate E ValSplit (all_scores E m (val_loader L)))"

subsection \<open>The run, epoch by epoch\<close>

text \<open>
  The state after the first \<open>k\<close> epochs of the loop, the validation AUC that epoch \<open>k\<close>
  compares at line 164 (that of the live model after the training of that epoch), and
  the parameters with which the loop is entered.
\<close>

definition state_after ::
  "('m, 'b, 'o, 'r) env \<Rightarrow> config \<Rightarrow> 'b loaders \<Rightarrow> nat \<Rightarrow> ('m, 'o, 'r) lstate" where
  "state_after E cfg L k = snd (epochs E cfg L [0..<k] (start_state E cfg L))"

definition epoch_val_auc ::
  "('m, 'b, 'o, 'r) env \<Rightarrow> config \<Rightarrow> 'b loaders \<Rightarrow> nat \<Rightarrow> real" where
  "epoch_val_auc E cfg L k = val_auc E L (model (state_after E cfg L (Suc k)))"

definition initial_model :: "('m, 'b, 'o, 'r) env \<Rightarrow> config \<Rightarrow> 'm" where
  "initial_model E cfg =
     (case model_path cfg of
        None \<Rightarrow> build E (model_flag cfg)
      | Some p \<Rightarrow> load_state_dict E p (build E (model_flag cfg)))"

text \<open>The events of lines 106-111 when the evaluation loaders are non-empty.\<close>

definition resume_events ::
  "('m, 'b, 'o, 'r) env \<Rightarrow> config \<Rightarrow> 'b loaders \<Rightarrow> ('m, 'r) event list" where
  "resume_events E cfg L =
     (case model_path cfg of
        None \<Rightarrow> []
      | Some p \<Rightarrow>
          LoadStateDict p #
            eval_events E (initial_model E cfg) L (run cfg) (Some (output_root cfg)))"

definition valid_flag :: "config \<Rightarrow> bool" where
  "valid_flag cfg \<longleftrightarrow> model_flag cfg \<in> set [''resnet18'', ''resnet50'', ''vit3d'']"

definition train_loaders_nonempty :: "'b loaders \<Rightarrow> nat \<Rightarrow> bool" where
  "train_loaders_nonempty L n \<longleftrightarrow> (\<forall>k \<in> set [0..<n]. train_loader L k \<noteq> [])"

subsection \<open>A small concrete environment\<close>

text \<open>
  For evaluating the driver on concrete inputs: the parameters are a counter of the
  optimizer updates applied, a batch is a number, its training loss is that number, and
  the validation AUC of a model is looked up in a table indexed by the counter. A loaded
  checkpoint has the counter 100.
\<close>

definition toy_env :: "(nat \<Rightarrow> real) \<Rightarrow> (nat, nat, unit, nat) env" where
  "toy_env auc_of =
     \<lparr>build = (\<lambda>flag. 0),
      load_state_dict = (\<lambda>p m. 100),
      adam_init = (\<lambda>m. ()),
      loss_train = (\<lambda>m b. real b),
      opt_update = (\<lambda>r os m b. ((), Suc m)),
      loss_eval = (\<lambda>m b. real (m + b)),
      scores = (\<lambda>m b. [m]),
      evaluate = (\<lambda>sp ys. (case ys of [] \<Rightarrow> (0, 0) | y # ys' \<Rightarrow> (auc_of y, 1 / 2)))\<rparr>"

text \<open>Four tables of validation AUC by parameter counter.\<close>

definition auc_zero :: "nat \<Rightarrow> real" where
  "auc_zero m = 0"

definition auc_half :: "nat \<Rightarrow> real" where
  "auc_half m = 1 / 2"

definition auc_high :: "nat \<Rightarrow> real" where
  "auc_high m = 9 / 10"

definition auc_peak :: "nat \<Rightarrow> real" where
  "auc_peak m = (if m = 2 then 9 / 10 else 1 / 2)"

definition toy_loaders :: "nat loaders" where
  "toy_loaders =
     \<lparr>train_loader = (\<lambda>k. [2, 4]), train_loader_at_eval = [2, 4],
      val_loader = [1], test_loader = [3]\<rparr>"

definition toy_config :: "int \<Rightarrow> string option \<Rightarrow> config" where
  "toy_config n p =
     \<lparr>data_flag = ''organmnist3d'', output_root = ''out'', num_epochs = n,
      model_flag = ''resnet18'', model_path = p, run = ''model1''\<rparr>"

definition toy_state :: "(nat, unit, nat) lstate" where
  "toy_state = init_train (toy_env auc_zero) (toy_config 1 None) 0 []"

section \<open>Properties\<close>

subsection \<open>Summation and the two batch loops\<close>

lemma foldl_plus_start: "foldl (+) (a::real) xs = a + sum_list xs"
  by (induction xs arbitrary: a) (simp_all add: add.assoc)

lemma py_sum_sum_list: "py_sum xs = sum_list xs"
  by (simp add: py_sum_def foldl_plus_start)

lemma test_loop_eq:
  "test_loop E m bs total_loss y_score =
     (total_loss @ map (loss_eval E m) bs, y_score @ concat (map (scores E m) bs))"
  by (induction bs arbitrary: total_loss y_score) simp_all

lemma train_loop_losses:
  "fst (train_loop E bs total_loss st) =
     total_loss @ batch_losses E (lr st) bs (ostate st) (model st)"
proof (induction bs arbitrary: total_loss st)
  case Nil
  show ?case by simp
next
  case (Cons b bs)
  show ?case
    by (simp add: Let_def Cons.IH split: prod.splits)
qed

lemma length_batch_losses: "length (batch_losses E r bs os m) = length bs"
  by (induction bs arbitrary: os m) (simp_all split: prod.splits)

subsection \<open>Reading traces; what the training loop changes\<close>

lemma eval_calls_append: "eval_calls (xs @ ys) = eval_calls xs @ eval_calls ys"
  by (induction xs rule: eval_calls.induct) simp_all

lemma loss_steps_append: "loss_steps (xs @ ys) = loss_steps xs @ loss_steps ys"
  by (induction xs rule: loss_steps.induct) simp_all

lemma saved_append: "saved (xs @ ys) = saved xs @ saved ys"
  by (induction xs rule: saved.induct) simp_all

lemma train_loop_frame:
  "lr (snd (train_loop E bs acc st)) = lr st
   \<and> last_epoch (snd (train_loop E bs acc st)) = last_epoch st
   \<and> log_dict (snd (train_loop E bs acc st)) = log_dict st
   \<and> best_auc (snd (train_loop E bs acc st)) = best_auc st
   \<and> best_epoch (snd (train_loop E bs acc st)) = best_epoch st
   \<and> best_model (snd (train_loop E bs acc st)) = best_model st"
  by (induction bs arbitrary: acc st) (simp_all add: Let_def case_prod_beta)

lemma train_loop_iteration:
  "iteration (snd (train_loop E bs acc st)) = iteration st + length bs"
  by (induction bs arbitrary: acc st) (simp_all add: Let_def case_prod_beta)

lemma train_loop_params:
  "(ostate (snd (train_loop E bs acc st)), model (snd (train_loop E bs acc st))) =
     trained E (lr st) bs (ostate st) (model st)"
  by (induction bs arbitrary: acc st) (simp_all add: Let_def case_prod_beta train_loop_frame)

lemma train_loop_trace:
  "trace (snd (train_loop E bs acc st)) =
     trace st @ train_events E (lr st) bs (ostate st) (model st) (iteration st)"
  by (induction bs arbitrary: acc st) (simp_all add: Let_def case_prod_beta train_loop_frame)

lemma train_events_eval_calls: "eval_calls (train_events E r bs os m i) = []"
  by (induction bs arbitrary: os m i) (simp_all add: case_prod_beta)

lemma train_events_saved: "saved (train_events E r bs os m i) = []"
  by (induction bs arbitrary: os m i) (simp_all add: case_prod_beta)

lemma upt_shift: "[i..<i + Suc n] = i # [Suc i..<Suc i + n]"
  by (subst upt_rec) simp

lemma train_events_loss_steps: "loss_steps (train_events E r bs os m i) = [i..<i + length bs]"
proof (induction bs arbitrary: os m i)
  case Nil
  show ?case by simp
next
  case (Cons b bs)
  have "loss_steps (train_events E r (b # bs) os m i) = i # [Suc i..<Suc i + length bs]"
    by (simp add: case_prod_beta Cons.IH)
  also have "\<dots> = [i..<i + length (b # bs)]"
    by (simp only: length_Cons upt_shift)
  finally show ?case .
qed

lemma train_events_train_calls: "filter is_train_call (train_events E r bs os m i) = []"
  by (induction bs arbitrary: os m i) (simp_all add: case_prod_beta)

lemma train_events_compare: "filter is_compare (train_events E r bs os m i) = []"
  by (induction bs arbitrary: os m i) (simp_all add: case_prod_beta)

lemma train_events_optimizer_steps:
  "length (filter is_optimizer_step (train_events E r bs os m i)) = length bs"
  by (induction bs arbitrary: os m i) (simp_all add: case_prod_beta)

subsection \<open>The mean loss of a training epoch\<close>

text \<open>
  C4. For a non-empty batch sequence \<^verbatim>\<open>train\<close> returns the arithmetic mean of the
  per-batch losses taken in traversal order (each under the parameters the earlier
  updates produced); for a single batch it returns that batch's loss itself.
\<close>

theorem train_returns_mean_loss:
  assumes "bs \<noteq> []"
  shows "fst (train E bs st) =
           Inr (sum_list (batch_losses E (lr st) bs (ostate st) (model st))
                / real (length bs))
         \<and> (\<forall>b. bs = [b] \<longrightarrow>
               fst (train E bs st) = Inr (loss_train E (model st) b))"
proof -
  let ?ls = "batch_losses E (lr st) bs (ostate st) (model st)"
  have tl: "fst (train_loop E bs [] (st\<lparr>trace := trace st @ [ModelTrain]\<rparr>)) = ?ls"
    by (simp add: train_loop_losses)
  have len: "length ?ls = length bs"
    by (rule length_batch_losses)
  have res: "fst (train E bs st) = mean_loss ?ls"
    using tl by (simp add: train_def Let_def case_prod_beta)
  have mean: "mean_loss ?ls = Inr (sum_list ?ls / real (length bs))"
    using assms len by (simp add: mean_loss_def py_sum_sum_list)
  have one: "fst (train E [b] st) = Inr (loss_train E (model st) b)" for b
    by (simp add: train_def Let_def mean_loss_def py_sum_def split: prod.splits)
  from res mean one show ?thesis by simp
qed


theorem train_returns_mean_loss_witness:
  "[2, 4] \<noteq> ([]::nat list)
   \<and> fst (train (toy_env auc_zero) [2, 4] toy_state) = Inr 3
   \<and> fst (train (toy_env auc_zero) [5] toy_state) = Inr 5"
  using train_returns_mean_loss [where bs = "[2, 4]" and E = "toy_env auc_zero" and st = toy_state]
    train_returns_mean_loss [where bs = "[5]" and E = "toy_env auc_zero" and st = toy_state]
  by (simp add: toy_env_def)

subsection \<open>The evaluation routine\<close>

lemma mean_loss_nonempty:
  "xs \<noteq> [] \<Longrightarrow> mean_loss xs = Inr (sum_list xs / real (length xs))"
  by (simp add: mean_loss_def py_sum_sum_list)

lemma test_empty:
  "test E m sp [] r save_folder tr =
     (Inl ZeroDivisionError, tr @ test_events E m sp [] r save_folder)"
  by (simp add: test_def test_events_def all_scores_def mean_loss_def Let_def case_prod_beta)

lemma test_nonempty:
  assumes "bs \<noteq> []"
  shows "test E m sp bs r save_folder tr =
           (Inr (metrics E m sp bs), tr @ test_events E m sp bs r save_folder)"
  using assms
  by (simp add: test_def test_loop_eq mean_loss_nonempty metrics_def test_events_def
      all_scores_def Let_def case_prod_beta)

text \<open>
  C6. On the empty batch sequence \<^verbatim>\<open>test\<close> raises \<^verbatim>\<open>ZeroDivisionError\<close> (so it returns
  no metrics); on a non-empty one it returns the list of the mean loss, the AUC and the
  accuracy, the last two as the evaluator computes them from the concatenated scores.
\<close>

theorem test_empty_raises_else_metrics:
  "fst (test E m sp [] r save_folder tr) = Inl ZeroDivisionError
   \<and> (bs \<noteq> [] \<longrightarrow>
        fst (test E m sp bs r save_folder tr) =
          Inr [sum_list (map (loss_eval E m) bs) / real (length bs),
               fst (evaluate E sp (concat (map (scores E m) bs))),
               snd (evaluate E sp (concat (map (scores E m) bs)))])"
  by (simp add: test_empty test_nonempty metrics_def all_scores_def)

theorem test_empty_raises_else_metrics_witness:
  "fst (test (toy_env auc_high) 5 ValSplit [] ''model1'' None []) = Inl ZeroDivisionError
   \<and> [1, 3] \<noteq> ([]::nat list)
   \<and> fst (test (toy_env auc_high) 5 ValSplit [1, 3] ''model1'' None []) =
       Inr [7, 9 / 10, 1 / 2]"
  using test_empty_raises_else_metrics [where bs = "[1, 3]" and E = "toy_env auc_high"
      and m = 5 and sp = ValSplit and r = "''model1''" and save_folder = None and tr = "[]"]
  by (simp add: toy_env_def auc_high_def)

subsection \<open>One training call, one evaluation pass\<close>

lemma train_loop_state:
  "snd (train_loop E bs acc st) =
     st\<lparr>model := snd (trained E (lr st) bs (ostate st) (model st)),
        ostate := fst (trained E (lr st) bs (ostate st) (model st)),
        iteration := iteration st + length bs,
        trace := trace st @ train_events E (lr st) bs (ostate st) (model st) (iteration st)\<rparr>"
  by (induction bs arbitrary: acc st) (simp_all add: Let_def case_prod_beta)

lemma train_state:
  "snd (train E bs st) =
     st\<lparr>model := snd (trained E (lr st) bs (ostate st) (model st)),
        ostate := fst (trained E (lr st) bs (ostate st) (model st)),
        iteration := iteration st + length bs,
        trace := trace st @ ModelTrain #
                   train_events E (lr st) bs (ostate st) (model st) (iteration st)\<rparr>"
  by (simp add: train_def Let_def case_prod_beta train_loop_state)

lemma train_result:
  "fst (train E bs st) = mean_loss (batch_losses E (lr st) bs (ostate st) (model st))"
  by (simp add: train_def Let_def case_prod_beta train_loop_losses)

lemma train_ok:
  assumes "bs \<noteq> []"
  shows "\<exists>x. fst (train E bs st) = Inr x"
  using assms by (simp add: train_result mean_loss_def length_batch_losses)

lemma eval_splits_nonempty:
  assumes "eval_loaders_nonempty L"
  shows "eval_splits E m L r save_folder tr =
           (Inr (metrics E m TrainSplit (train_loader_at_eval L),
                 metrics E m ValSplit (val_loader L),
                 metrics E m TestSplit (test_loader L)),
            tr @ eval_events E m L r save_folder)"
  using assms
  by (simp add: eval_splits_def eval_loaders_nonempty_def test_nonempty eval_events_def)

lemma eval_calls_test_events:
  "eval_calls (test_events E m sp bs r save_folder) = [(sp, save_folder)]"
  by (simp add: test_events_def)

lemma eval_calls_eval_events:
  "eval_calls (eval_events E m L r save_folder) = pass save_folder"
  by (simp add: eval_events_def eval_calls_append eval_calls_test_events pass_def)

lemma eval_events_plain:
  "saved (eval_events E m L r save_folder) = []"
  "loss_steps (eval_events E m L r save_folder) = []"
  "filter is_train_call (eval_events E m L r save_folder) = []"
  "filter is_compare (eval_events E m L r save_folder) = []"
  "filter is_optimizer_step (eval_events E m L r save_folder) = []"
  by (simp_all add: eval_events_def test_events_def)

subsection \<open>The log dictionary and its scalar events\<close>

lemma train_nonempty:
  assumes "bs \<noteq> []"
  shows "train E bs st =
     (Inr (sum_list (batch_losses E (lr st) bs (ostate st) (model st)) / real (length bs)),
      st\<lparr>model := snd (trained E (lr st) bs (ostate st) (model st)),
         ostate := fst (trained E (lr st) bs (ostate st) (model st)),
         iteration := iteration st + length bs,
         trace := trace st @ ModelTrain #
                    train_events E (lr st) bs (ostate st) (model st) (iteration st)\<rparr>)"
proof -
  have "batch_losses E (lr st) bs (ostate st) (model st) \<noteq> []"
    using assms length_batch_losses [of E "lr st" bs "ostate st" "model st"] by auto
  then have "fst (train E bs st) =
      Inr (sum_list (batch_losses E (lr st) bs (ostate st) (model st)) / real (length bs))"
    by (simp add: train_result mean_loss_nonempty length_batch_losses)
  then show ?thesis
    using train_state [of E bs st] by (metis prod.collapse)
qed

lemma update_logs_keys_aux:
  "fst ` set (fold (\<lambda>(i, key) d'. AList.update key (ms ! i) d') (enumerate n keys) d) =
     set keys \<union> fst ` set d"
  by (induction keys arbitrary: n d) (auto simp: dom_update)

lemma update_logs_keys: "fst ` set (update_logs keys ms d) = set keys \<union> fst ` set d"
  by (simp add: update_logs_def update_logs_keys_aux)

lemma log_keys_fresh:
  "''train_loss_logs'' \<notin> set train_logs \<union> set val_logs \<union> set test_logs"
  by (simp add: train_logs_def val_logs_def test_logs_def logs_def)

lemma scalar_events_plain:
  "eval_calls (map (\<lambda>(key, v). AddScalar key v e) d) = []"
  "saved (map (\<lambda>(key, v). AddScalar key v e) d) = []"
  "filter is_train_call (map (\<lambda>(key, v). AddScalar key v e) d) = []"
  "filter is_compare (map (\<lambda>(key, v). AddScalar key v e) d) = []"
  "filter is_optimizer_step (map (\<lambda>(key, v). AddScalar key v e) d) = []"
  by (induction d) (simp_all add: case_prod_beta)

lemma scalar_events_loss_steps:
  "''train_loss_logs'' \<notin> fst ` set d \<Longrightarrow>
     loss_steps (map (\<lambda>(key, v). AddScalar key v e) d) = []"
  by (induction d) (auto simp: case_prod_beta)

subsection \<open>The steps of one epoch\<close>

lemma metrics_auc: "metrics E m ValSplit (val_loader L) ! Suc 0 = val_auc E L m"
  by (simp add: metrics_def val_auc_def)

lemma scheduler_step_frame:
  "model (scheduler_step ms g st) = model st"
  "ostate (scheduler_step ms g st) = ostate st"
  "iteration (scheduler_step ms g st) = iteration st"
  "log_dict (scheduler_step ms g st) = log_dict st"
  "best_auc (scheduler_step ms g st) = best_auc st"
  "best_epoch (scheduler_step ms g st) = best_epoch st"
  "best_model (scheduler_step ms g st) = best_model st"
  "last_epoch (scheduler_step ms g st) = last_epoch st + 1"
  "trace (scheduler_step ms g st) = trace st @ [SchedulerStep]"
  by (simp_all add: scheduler_step_def Let_def)

lemma scheduler_step_lr:
  "lr (scheduler_step ms g st) =
     (if real (last_epoch st + 1) \<notin> set ms then lr st
      else lr st * g ^ count_list ms (real (last_epoch st + 1)))"
  by (simp add: scheduler_step_def Let_def)

lemma log_metrics_frame:
  "model (log_metrics e a b c st) = model st"
  "ostate (log_metrics e a b c st) = ostate st"
  "iteration (log_metrics e a b c st) = iteration st"
  "lr (log_metrics e a b c st) = lr st"
  "last_epoch (log_metrics e a b c st) = last_epoch st"
  "best_auc (log_metrics e a b c st) = best_auc st"
  "best_epoch (log_metrics e a b c st) = best_epoch st"
  "best_model (log_metrics e a b c st) = best_model st"
  by (simp_all add: log_metrics_def Let_def)

lemma log_metrics_trace:
  "trace (log_metrics e a b c st) =
     trace st @ map (\<lambda>(key, v). AddScalar key v e) (log_dict (log_metrics e a b c st))"
  by (simp add: log_metrics_def Let_def)

lemma log_metrics_keys:
  "fst ` set (log_dict (log_metrics e a b c st)) =
     set train_logs \<union> set val_logs \<union> set test_logs \<union> fst ` set (log_dict st)"
  by (simp add: log_metrics_def Let_def update_logs_keys Un_ac)

lemma checkpoint_check_frame:
  "model (checkpoint_check e cur st) = model st"
  "ostate (checkpoint_check e cur st) = ostate st"
  "iteration (checkpoint_check e cur st) = iteration st"
  "lr (checkpoint_check e cur st) = lr st"
  "last_epoch (checkpoint_check e cur st) = last_epoch st"
  "log_dict (checkpoint_check e cur st) = log_dict st"
  "trace (checkpoint_check e cur st) = trace st @ [Compare e cur (best_auc st)]"
  by (simp_all add: checkpoint_check_def Let_def)

lemma checkpoint_check_best:
  "best_auc (checkpoint_check e cur st) = (if cur > best_auc st then cur else best_auc st)"
  "best_epoch (checkpoint_check e cur st) = (if cur > best_auc st then e else best_epoch st)"
  "best_model (checkpoint_check e cur st) = (if cur > best_auc st then model st else best_model st)"
  by (simp_all add: checkpoint_check_def Let_def)

lemma epoch_body_eq:
  assumes tr: "train_loader L e \<noteq> []" and ev: "eval_loaders_nonempty L"
  shows "epoch_body E cfg L e st =
    (Inr (),
     checkpoint_check e (val_auc E L (model (snd (train E (train_loader L e) st))))
       (log_metrics e
          (metrics E (model (snd (train E (train_loader L e) st))) TrainSplit
             (train_loader_at_eval L))
          (metrics E (model (snd (train E (train_loader L e) st))) ValSplit (val_loader L))
          (metrics E (model (snd (train E (train_loader L e) st))) TestSplit (test_loader L))
          (scheduler_step (milestones (num_epochs cfg)) gamma
             ((snd (train E (train_loader L e) st))
                \<lparr>trace := trace (snd (train E (train_loader L e) st)) @
                   eval_events E (model (snd (train E (train_loader L e) st))) L (run cfg)
                     None\<rparr>))))"
proof -
  obtain x where "fst (train E (train_loader L e) st) = Inr x"
    using train_ok [OF tr] by blast
  then have t: "train E (train_loader L e) st = (Inr x, snd (train E (train_loader L e) st))"
    by (metis prod.collapse)
  show ?thesis
    unfolding epoch_body_def
    by (subst t) (simp add: eval_splits_nonempty [OF ev] Let_def metrics_auc)
qed

lemmas step_frames =
  checkpoint_check_frame checkpoint_check_best log_metrics_frame scheduler_step_frame train_state

lemma epoch_body_ok:
  assumes tr: "train_loader L e \<noteq> []" and ev: "eval_loaders_nonempty L"
  shows "fst (epoch_body E cfg L e st) = Inr ()"
  by (simp add: epoch_body_eq [OF tr ev])

lemma epoch_body_params:
  assumes tr: "train_loader L e \<noteq> []" and ev: "eval_loaders_nonempty L"
  shows "model (snd (epoch_body E cfg L e st)) =
           snd (trained E (lr st) (train_loader L e) (ostate st) (model st))"
    and "ostate (snd (epoch_body E cfg L e st)) =
           fst (trained E (lr st) (train_loader L e) (ostate st) (model st))"
    and "iteration (snd (epoch_body E cfg L e st)) = iteration st + length (train_loader L e)"
    and "last_epoch (snd (epoch_body E cfg L e st)) = last_epoch st + 1"
  by (simp_all add: epoch_body_eq [OF tr ev] step_frames)

lemma epoch_body_lr:
  assumes tr: "train_loader L e \<noteq> []" and ev: "eval_loaders_nonempty L"
  shows "lr (snd (epoch_body E cfg L e st)) =
           (if real (last_epoch st + 1) \<notin> set (milestones (num_epochs cfg)) then lr st
            else lr st * gamma ^ count_list (milestones (num_epochs cfg)) (real (last_epoch st + 1)))"
  by (simp add: epoch_body_eq [OF tr ev] step_frames scheduler_step_lr)

lemma epoch_body_best:
  assumes tr: "train_loader L e \<noteq> []" and ev: "eval_loaders_nonempty L"
  shows "best_auc (snd (epoch_body E cfg L e st)) =
           (if val_auc E L (model (snd (epoch_body E cfg L e st))) > best_auc st
            then val_auc E L (model (snd (epoch_body E cfg L e st))) else best_auc st)"
    and "best_epoch (snd (epoch_body E cfg L e st)) =
           (if val_auc E L (model (snd (epoch_body E cfg L e st))) > best_auc st
            then e else best_epoch st)"
    and "best_model (snd (epoch_body E cfg L e st)) =
           (if val_auc E L (model (snd (epoch_body E cfg L e st))) > best_auc st
            then model (snd (epoch_body E cfg L e st)) else best_model st)"
  by (simp_all add: epoch_body_eq [OF tr ev] step_frames)

lemma epoch_body_log_keys:
  assumes tr: "train_loader L e \<noteq> []" and ev: "eval_loaders_nonempty L"
  shows "fst ` set (log_dict (snd (epoch_body E cfg L e st))) =
           set train_logs \<union> set val_logs \<union> set test_logs \<union> fst ` set (log_dict st)"
  by (simp add: epoch_body_eq [OF tr ev] step_frames log_metrics_keys)

lemma epoch_body_trace:
  assumes tr: "train_loader L e \<noteq> []" and ev: "eval_loaders_nonempty L"
  shows "trace (snd (epoch_body E cfg L e st)) =
           trace st @ ModelTrain #
             train_events E (lr st) (train_loader L e) (ostate st) (model st) (iteration st) @
             eval_events E (model (snd (epoch_body E cfg L e st))) L (run cfg) None @
             SchedulerStep #
             map (\<lambda>(key, v). AddScalar key v e) (log_dict (snd (epoch_body E cfg L e st))) @
             [Compare e (val_auc E L (model (snd (epoch_body E cfg L e st)))) (best_auc st)]"
  by (simp add: epoch_body_eq [OF tr ev] step_frames log_metrics_trace)

lemmas trace_appends = eval_calls_append saved_append loss_steps_append

lemma epoch_body_eval_calls:
  assumes tr: "train_loader L e \<noteq> []" and ev: "eval_loaders_nonempty L"
  shows "eval_calls (trace (snd (epoch_body E cfg L e st))) = eval_calls (trace st) @ pass None"
  by (subst epoch_body_trace [OF tr ev])
     (simp add: trace_appends train_events_eval_calls eval_calls_eval_events scalar_events_plain)

lemma epoch_body_saved:
  assumes tr: "train_loader L e \<noteq> []" and ev: "eval_loaders_nonempty L"
  shows "saved (trace (snd (epoch_body E cfg L e st))) = saved (trace st)"
  by (subst epoch_body_trace [OF tr ev])
     (simp add: trace_appends train_events_saved eval_events_plain scalar_events_plain)

lemma epoch_body_train_calls:
  assumes tr: "train_loader L e \<noteq> []" and ev: "eval_loaders_nonempty L"
  shows "filter is_train_call (trace (snd (epoch_body E cfg L e st))) =
           filter is_train_call (trace st) @ [ModelTrain]"
  by (subst epoch_body_trace [OF tr ev])
     (simp add: train_events_train_calls eval_events_plain scalar_events_plain)

lemma epoch_body_compares:
  assumes tr: "train_loader L e \<noteq> []" and ev: "eval_loaders_nonempty L"
  shows "filter is_compare (trace (snd (epoch_body E cfg L e st))) =
           filter is_compare (trace st) @
             [Compare e (val_auc E L (model (snd (epoch_body E cfg L e st)))) (best_auc st)]"
  by (subst epoch_body_trace [OF tr ev])
     (simp add: train_events_compare eval_events_plain scalar_events_plain)

lemma epoch_body_optimizer_steps:
  assumes tr: "train_loader L e \<noteq> []" and ev: "eval_loaders_nonempty L"
  shows "length (filter is_optimizer_step (trace (snd (epoch_body E cfg L e st)))) =
           length (filter is_optimizer_step (trace st)) + length (train_loader L e)"
  by (subst epoch_body_trace [OF tr ev])
     (simp add: train_events_optimizer_steps eval_events_plain scalar_events_plain)

lemma epoch_body_loss_steps:
  assumes tr: "train_loader L e \<noteq> []" and ev: "eval_loaders_nonempty L"
    and keys: "''train_loss_logs'' \<notin> fst ` set (log_dict st)"
  shows "loss_steps (trace (snd (epoch_body E cfg L e st))) =
           loss_steps (trace st) @ [iteration st..<iteration st + length (train_loader L e)]"
proof -
  have "''train_loss_logs'' \<notin> fst ` set (log_dict (snd (epoch_body E cfg L e st)))"
    using keys log_keys_fresh by (simp add: epoch_body_log_keys [OF tr ev])
  then have "loss_steps (map (\<lambda>(key, v). AddScalar key v e)
                (log_dict (snd (epoch_body E cfg L e st)))) = []"
    by (rule scalar_events_loss_steps)
  then show ?thesis
    by (subst epoch_body_trace [OF tr ev])
       (simp add: trace_appends train_events_loss_steps eval_events_plain)
qed

lemma epoch_body_keeps_keys:
  assumes tr: "train_loader L e \<noteq> []" and ev: "eval_loaders_nonempty L"
    and keys: "''train_loss_logs'' \<notin> fst ` set (log_dict st)"
  shows "''train_loss_logs'' \<notin> fst ` set (log_dict (snd (epoch_body E cfg L e st)))"
  using keys log_keys_fresh by (simp add: epoch_body_log_keys [OF tr ev])

lemma epochs_Cons:
  assumes tr: "train_loader L e \<noteq> []" and ev: "eval_loaders_nonempty L"
  shows "epochs E cfg L (e # es) st = epochs E cfg L es (snd (epoch_body E cfg L e st))"
proof -
  have "epoch_body E cfg L e st = (Inr (), snd (epoch_body E cfg L e st))"
    using epoch_body_ok [OF tr ev, of E cfg st] by (metis prod.collapse)
  then show ?thesis
    by (metis (no_types, lifting) epochs.simps(2) old.prod.case old.sum.simps(6))
qed

subsection \<open>The epoch loop\<close>

lemma epochs_ok:
  assumes "\<forall>e \<in> set es. train_loader L e \<noteq> []" and "eval_loaders_nonempty L"
  shows "fst (epochs E cfg L es st) = Inr ()"
  using assms by (induction es arbitrary: st) (simp_all add: epochs_Cons del: epochs.simps(2))

lemma epochs_append:
  assumes "\<forall>e \<in> set xs. train_loader L e \<noteq> []" and "eval_loaders_nonempty L"
  shows "epochs E cfg L (xs @ ys) st = epochs E cfg L ys (snd (epochs E cfg L xs st))"
  using assms by (induction xs arbitrary: st) (simp_all add: epochs_Cons del: epochs.simps(2))

lemma epochs_iteration:
  assumes "\<forall>e \<in> set es. train_loader L e \<noteq> []" and "eval_loaders_nonempty L"
  shows "iteration (snd (epochs E cfg L es st)) =
           iteration st + sum_list (map (\<lambda>e. length (train_loader L e)) es)"
  using assms by (induction es arbitrary: st) (simp_all add: epochs_Cons epoch_body_params del: epochs.simps(2))

lemma epochs_last_epoch:
  assumes "\<forall>e \<in> set es. train_loader L e \<noteq> []" and "eval_loaders_nonempty L"
  shows "last_epoch (snd (epochs E cfg L es st)) = last_epoch st + length es"
  using assms by (induction es arbitrary: st) (simp_all add: epochs_Cons epoch_body_params del: epochs.simps(2))

lemma epochs_eval_calls:
  assumes "\<forall>e \<in> set es. train_loader L e \<noteq> []" and "eval_loaders_nonempty L"
  shows "eval_calls (trace (snd (epochs E cfg L es st))) =
           eval_calls (trace st) @ concat (replicate (length es) (pass None))"
  using assms
  by (induction es arbitrary: st) (simp_all add: epochs_Cons epoch_body_eval_calls del: epochs.simps(2))

lemma epochs_saved:
  assumes "\<forall>e \<in> set es. train_loader L e \<noteq> []" and "eval_loaders_nonempty L"
  shows "saved (trace (snd (epochs E cfg L es st))) = saved (trace st)"
  using assms by (induction es arbitrary: st) (simp_all add: epochs_Cons epoch_body_saved del: epochs.simps(2))

lemma epochs_train_calls:
  assumes "\<forall>e \<in> set es. train_loader L e \<noteq> []" and "eval_loaders_nonempty L"
  shows "length (filter is_train_call (trace (snd (epochs E cfg L es st)))) =
           length (filter is_train_call (trace st)) + length es"
  using assms
  by (induction es arbitrary: st) (simp_all add: epochs_Cons epoch_body_train_calls del: epochs.simps(2))

lemma epochs_compares:
  assumes "\<forall>e \<in> set es. train_loader L e \<noteq> []" and "eval_loaders_nonempty L"
  shows "length (filter is_compare (trace (snd (epochs E cfg L es st)))) =
           length (filter is_compare (trace st)) + length es"
  using assms
  by (induction es arbitrary: st) (simp_all add: epochs_Cons epoch_body_compares del: epochs.simps(2))

lemma epochs_optimizer_steps:
  assumes "\<forall>e \<in> set es. train_loader L e \<noteq> []" and "eval_loaders_nonempty L"
  shows "length (filter is_optimizer_step (trace (snd (epochs E cfg L es st)))) =
           length (filter is_optimizer_step (trace st)) +
             sum_list (map (\<lambda>e. length (train_loader L e)) es)"
  using assms
  by (induction es arbitrary: st) (simp_all add: epochs_Cons epoch_body_optimizer_steps del: epochs.simps(2))

lemma upt_join: "[i..<i + a] @ [i + a..<i + (a + b)] = [i..<i + (a + (b::nat))]"
  by (metis add.assoc le_add1 upt_add_eq_append)

lemma epochs_loss_steps:
  assumes "\<forall>e \<in> set es. train_loader L e \<noteq> []" and "eval_loaders_nonempty L"
    and "''train_loss_logs'' \<notin> fst ` set (log_dict st)"
  shows "loss_steps (trace (snd (epochs E cfg L es st))) =
           loss_steps (trace st) @
             [iteration st..<iteration st + sum_list (map (\<lambda>e. length (train_loader L e)) es)]"
  using assms
proof (induction es arbitrary: st)
  case Nil
  show ?case by simp
next
  case (Cons e es)
  have tr: "train_loader L e \<noteq> []" and rest: "\<forall>k \<in> set es. train_loader L k \<noteq> []"
    using Cons.prems(1) by simp_all
  note ev = Cons.prems(2)
  let ?s = "snd (epoch_body E cfg L e st)"
  have keys: "''train_loss_logs'' \<notin> fst ` set (log_dict ?s)"
    by (rule epoch_body_keeps_keys [OF tr ev Cons.prems(3)])
  have "loss_steps (trace (snd (epochs E cfg L (e # es) st))) =
          loss_steps (trace ?s) @
            [iteration ?s..<iteration ?s + sum_list (map (\<lambda>e. length (train_loader L e)) es)]"
    by (simp add: epochs_Cons [OF tr ev] Cons.IH [OF rest ev keys] del: epochs.simps(2))
  then show ?case
    by (simp add: epoch_body_loss_steps [OF tr ev Cons.prems(3)] epoch_body_params [OF tr ev]
        upt_join add.assoc del: epochs.simps(2))
qed

subsection \<open>The driver as a whole\<close>

lemma resume_eval_nonempty:
  assumes ev: "eval_loaders_nonempty L"
  shows "resume_eval E cfg L (build E (model_flag cfg)) [] =
           (Inr (), initial_model E cfg, resume_events E cfg L)"
  by (simp add: resume_eval_def initial_model_def resume_events_def Let_def
      eval_splits_nonempty [OF ev] split: option.splits)

lemma start_state_nonempty:
  assumes ev: "eval_loaders_nonempty L"
  shows "start_state E cfg L = init_train E cfg (initial_model E cfg) (resume_events E cfg L)"
  by (simp add: start_state_def resume_eval_nonempty [OF ev])

lemma init_train_fields:
  "model (init_train E cfg m tr) = m"
  "best_model (init_train E cfg m tr) = m"
  "best_auc (init_train E cfg m tr) = 0"
  "best_epoch (init_train E cfg m tr) = 0"
  "iteration (init_train E cfg m tr) = 0"
  "last_epoch (init_train E cfg m tr) = 0"
  "lr (init_train E cfg m tr) = initial_lr (model_flag cfg)"
  "ostate (init_train E cfg m tr) = adam_init E m"
  "trace (init_train E cfg m tr) =
     tr @ [WriterOpen (path_join (output_root cfg) ''Tensorboard_Results'')]"
  by (simp_all add: init_train_def)

lemma init_train_keys:
  "''train_loss_logs'' \<notin> fst ` set (log_dict (init_train E cfg m tr))"
  using log_keys_fresh by (simp add: init_train_def image_Un image_image)

lemma resume_events_plain:
  "saved (resume_events E cfg L) = []"
  "loss_steps (resume_events E cfg L) = []"
  "filter is_train_call (resume_events E cfg L) = []"
  "filter is_compare (resume_events E cfg L) = []"
  "filter is_optimizer_step (resume_events E cfg L) = []"
  by (simp_all add: resume_events_def eval_events_plain split: option.splits)

lemma resume_events_eval_calls:
  "eval_calls (resume_events E cfg L) =
     (case model_path cfg of None \<Rightarrow> [] | Some p \<Rightarrow> pass (Some (output_root cfg)))"
  by (simp add: resume_events_def eval_calls_eval_events split: option.splits)

lemma finish_nonempty:
  assumes ev: "eval_loaders_nonempty L"
  shows "finish E cfg L st =
    (Inr (),
     trace st @ TorchSave (path_join (output_root cfg) ''best_model.pth'') (model st) #
       eval_events E (best_model st) L (run cfg) (Some (output_root cfg)) @
       [AppendLog (path_join (output_root cfg) (data_flag cfg @ ''_log.txt'')) (data_flag cfg)
          (metrics E (best_model st) TrainSplit (train_loader_at_eval L))
          (metrics E (best_model st) ValSplit (val_loader L))
          (metrics E (best_model st) TestSplit (test_loader L)),
        WriterClose])"
  by (simp add: finish_def Let_def eval_splits_nonempty [OF ev])

lemma main_zero_epochs:
  assumes "valid_flag cfg" and ev: "eval_loaders_nonempty L" and "num_epochs cfg = 0"
  shows "main E cfg L = (Inr (), resume_events E cfg L)"
  using assms(1,3) unfolding main_def valid_flag_def
  by (simp add: resume_eval_nonempty [OF ev])

lemma after_loop_ok:
  assumes ev: "eval_loaders_nonempty L"
    and tr: "train_loaders_nonempty L (nat (num_epochs cfg))"
  shows "fst (after_loop E cfg L) = Inr ()"
  unfolding after_loop_def epoch_range_def
  using tr ev by (intro epochs_ok) (simp_all add: train_loaders_nonempty_def)

lemma main_trains:
  assumes "valid_flag cfg" and ev: "eval_loaders_nonempty L" and "num_epochs cfg \<noteq> 0"
    and tr: "train_loaders_nonempty L (nat (num_epochs cfg))"
  shows "main E cfg L = finish E cfg L (snd (after_loop E cfg L))"
proof -
  have "after_loop E cfg L = (Inr (), snd (after_loop E cfg L))"
    using after_loop_ok [OF ev tr, of E] by (metis prod.collapse)
  then have "(case after_loop E cfg L of (Inl e, st) \<Rightarrow> (Inl e, trace st)
               | (Inr u, st) \<Rightarrow> finish E cfg L st) = finish E cfg L (snd (after_loop E cfg L))"
    by (metis (no_types, lifting) old.prod.case old.sum.simps(6))
  then show ?thesis
    using assms(1,3) unfolding main_def valid_flag_def
    by (simp add: resume_eval_nonempty [OF ev])
qed

lemma after_loop_state: "snd (after_loop E cfg L) = state_after E cfg L (nat (num_epochs cfg))"
  by (simp add: after_loop_def state_after_def epoch_range_def)

lemma state_after_0: "state_after E cfg L 0 = start_state E cfg L"
  by (simp add: state_after_def)

lemma train_loaders_nonempty_set:
  "train_loaders_nonempty L n \<Longrightarrow> \<forall>e \<in> set [0..<n]. train_loader L e \<noteq> []"
  by (simp add: train_loaders_nonempty_def)

lemma train_loaders_nonempty_less:
  "train_loaders_nonempty L n \<Longrightarrow> k < n \<Longrightarrow> train_loader L k \<noteq> []"
  by (simp add: train_loaders_nonempty_def)

lemma train_loaders_nonempty_mono:
  "train_loaders_nonempty L n \<Longrightarrow> k \<le> n \<Longrightarrow> train_loaders_nonempty L k"
  by (simp add: train_loaders_nonempty_def)

lemma state_after_Suc:
  assumes ev: "eval_loaders_nonempty L" and tr: "train_loaders_nonempty L (Suc k)"
  shows "state_after E cfg L (Suc k) = snd (epoch_body E cfg L k (state_after E cfg L k))"
proof -
  have pre: "\<forall>e \<in> set [0..<k]. train_loader L e \<noteq> []"
    using tr by (simp add: train_loaders_nonempty_def)
  have last: "train_loader L k \<noteq> []"
    using tr by (simp add: train_loaders_nonempty_def)
  have "epochs E cfg L ([0..<k] @ [k]) (start_state E cfg L) =
          epochs E cfg L [k] (state_after E cfg L k)"
    unfolding state_after_def by (rule epochs_append [OF pre ev])
  also have "\<dots> = (Inr (), snd (epoch_body E cfg L k (state_after E cfg L k)))"
    by (simp add: epochs_Cons [OF last ev] del: epochs.simps(2))
  finally show ?thesis
    by (simp add: state_after_def)
qed

lemma state_after_trace_counts:
  assumes ev: "eval_loaders_nonempty L" and tr: "train_loaders_nonempty L n"
  shows "eval_calls (trace (state_after E cfg L n)) =
           (case model_path cfg of None \<Rightarrow> [] | Some p \<Rightarrow> pass (Some (output_root cfg))) @
           concat (replicate n (pass None))"
    and "saved (trace (state_after E cfg L n)) = []"
    and "length (filter is_train_call (trace (state_after E cfg L n))) = n"
    and "length (filter is_compare (trace (state_after E cfg L n))) = n"
    and "length (filter is_optimizer_step (trace (state_after E cfg L n))) =
           sum_list (map (\<lambda>k. length (train_loader L k)) [0..<n])"
    and "iteration (state_after E cfg L n) =
           sum_list (map (\<lambda>k. length (train_loader L k)) [0..<n])"
    and "last_epoch (state_after E cfg L n) = n"
    and "loss_steps (trace (state_after E cfg L n)) =
           [0..<sum_list (map (\<lambda>k. length (train_loader L k)) [0..<n])]"
  unfolding state_after_def
  using train_loaders_nonempty_set [OF tr] ev
  by (simp_all add: epochs_eval_calls epochs_saved epochs_train_calls epochs_compares
      epochs_optimizer_steps epochs_iteration epochs_last_epoch epochs_loss_steps
      start_state_nonempty init_train_fields init_train_keys trace_appends
      resume_events_plain resume_events_eval_calls)

subsection \<open>Training steps and evaluation passes\<close>

lemma main_trace:
  assumes "valid_flag cfg" and ev: "eval_loaders_nonempty L" and "num_epochs cfg \<noteq> 0"
    and tr: "train_loaders_nonempty L (nat (num_epochs cfg))"
  shows "main E cfg L =
    (Inr (),
     trace (snd (after_loop E cfg L)) @
       TorchSave (path_join (output_root cfg) ''best_model.pth'')
         (model (snd (after_loop E cfg L))) #
       eval_events E (best_model (snd (after_loop E cfg L))) L (run cfg)
         (Some (output_root cfg)) @
       [AppendLog (path_join (output_root cfg) (data_flag cfg @ ''_log.txt'')) (data_flag cfg)
          (metrics E (best_model (snd (after_loop E cfg L))) TrainSplit (train_loader_at_eval L))
          (metrics E (best_model (snd (after_loop E cfg L))) ValSplit (val_loader L))
          (metrics E (best_model (snd (after_loop E cfg L))) TestSplit (test_loader L)),
        WriterClose])"
  by (simp add: main_trains [OF assms] finish_nonempty [OF ev])

lemma main_eval_calls:
  assumes "valid_flag cfg" and ev: "eval_loaders_nonempty L" and "num_epochs cfg \<noteq> 0"
    and tr: "train_loaders_nonempty L (nat (num_epochs cfg))"
  shows "eval_calls (snd (main E cfg L)) =
           (case model_path cfg of None \<Rightarrow> [] | Some p \<Rightarrow> pass (Some (output_root cfg))) @
           concat (replicate (nat (num_epochs cfg)) (pass None)) @
           pass (Some (output_root cfg))"
  by (simp add: main_trace [OF assms] trace_appends eval_calls_eval_events after_loop_state
      state_after_trace_counts [OF ev tr])

lemma main_train_calls:
  assumes "valid_flag cfg" and ev: "eval_loaders_nonempty L" and "num_epochs cfg \<noteq> 0"
    and tr: "train_loaders_nonempty L (nat (num_epochs cfg))"
  shows "length (filter is_train_call (snd (main E cfg L))) = nat (num_epochs cfg)"
  by (simp add: main_trace [OF assms] eval_events_plain after_loop_state
      state_after_trace_counts [OF ev tr])

lemma main_saved:
  assumes "valid_flag cfg" and ev: "eval_loaders_nonempty L" and "num_epochs cfg \<noteq> 0"
    and tr: "train_loaders_nonempty L (nat (num_epochs cfg))"
  shows "saved (snd (main E cfg L)) =
           [(path_join (output_root cfg) ''best_model.pth'', model (snd (after_loop E cfg L)))]"
  by (simp add: main_trace [OF assms] trace_appends eval_events_plain after_loop_state
      state_after_trace_counts [OF ev tr])

lemma map_fst_pass: "map fst (pass save_folder) = [TrainSplit, ValSplit, TestSplit]"
  by (simp add: pass_def)

lemma map_fst_passes:
  "map fst (concat (replicate n (pass save_folder))) =
     concat (replicate n [TrainSplit, ValSplit, TestSplit])"
  by (induction n) (simp_all add: map_fst_pass)

lemma concat_replicate_add:
  "concat (replicate a xs) @ concat (replicate b xs) = concat (replicate (a + b) xs)"
  by (simp add: replicate_add)

lemma concat_replicate_one: "concat (replicate n xs) @ xs = concat (replicate (n + 1) xs)"
  by (induction n) simp_all

text \<open>
  C3. With \<open>N \<ge> 1\<close> epochs and non-empty loaders the driver completes, calls \<^verbatim>\<open>train\<close>
  exactly \<open>N\<close> times, and its evaluator calls are \<open>N + 1\<close> passes (one more when a
  checkpoint was resumed), each over the train-for-eval, validation and test split in
  that order.
\<close>

theorem main_trains_n_times_and_evaluates_in_order:
  assumes "valid_flag cfg" and "eval_loaders_nonempty L" and "1 \<le> num_epochs cfg"
    and "train_loaders_nonempty L (nat (num_epochs cfg))"
  shows "fst (main E cfg L) = Inr ()
    \<and> length (filter is_train_call (snd (main E cfg L))) = nat (num_epochs cfg)
    \<and> map fst (eval_calls (snd (main E cfg L))) =
        concat (replicate
          (nat (num_epochs cfg) + 1 + (case model_path cfg of None \<Rightarrow> 0 | Some p \<Rightarrow> 1))
          [TrainSplit, ValSplit, TestSplit])"
proof -
  have nz: "num_epochs cfg \<noteq> 0"
    using assms(3) by simp
  note hyps = assms(1,2) nz assms(4)
  have "fst (main E cfg L) = Inr ()"
    by (simp add: main_trace [OF hyps])
  moreover have "length (filter is_train_call (snd (main E cfg L))) = nat (num_epochs cfg)"
    by (rule main_train_calls [OF hyps])
  moreover have "map fst (eval_calls (snd (main E cfg L))) =
        concat (replicate
          (nat (num_epochs cfg) + 1 + (case model_path cfg of None \<Rightarrow> 0 | Some p \<Rightarrow> 1))
          [TrainSplit, ValSplit, TestSplit])"
  proof (cases "model_path cfg")
    case None
    then show ?thesis
      by (simp add: main_eval_calls [OF hyps] map_fst_passes map_fst_pass
          concat_replicate_one [where xs = "[TrainSplit, ValSplit, TestSplit]", simplified])
  next
    case (Some p)
    then show ?thesis
      by (simp add: main_eval_calls [OF hyps] map_fst_passes map_fst_pass
          concat_replicate_one [where xs = "[TrainSplit, ValSplit, TestSplit]", simplified])
  qed
  ultimately show ?thesis by simp
qed

lemma toy_hyps:
  "valid_flag (toy_config n p)"
  "eval_loaders_nonempty toy_loaders"
  "train_loaders_nonempty toy_loaders k"
  by (simp_all add: valid_flag_def toy_config_def eval_loaders_nonempty_def
      train_loaders_nonempty_def toy_loaders_def)

lemma toy_config_fields:
  "num_epochs (toy_config n p) = n"
  "model_path (toy_config n p) = p"
  "output_root (toy_config n p) = ''out''"
  "run (toy_config n p) = ''model1''"
  "data_flag (toy_config n p) = ''organmnist3d''"
  "model_flag (toy_config n p) = ''resnet18''"
  by (simp_all add: toy_config_def)

theorem main_trains_n_times_and_evaluates_in_order_witness:
  "valid_flag (toy_config 2 (Some ''ckpt.pth''))
   \<and> eval_loaders_nonempty toy_loaders
   \<and> (1::int) \<le> num_epochs (toy_config 2 (Some ''ckpt.pth''))
   \<and> train_loaders_nonempty toy_loaders (nat (num_epochs (toy_config 2 (Some ''ckpt.pth''))))
   \<and> fst (main (toy_env auc_half) (toy_config 2 (Some ''ckpt.pth'')) toy_loaders) = Inr ()
   \<and> length (filter is_train_call
        (snd (main (toy_env auc_half) (toy_config 2 (Some ''ckpt.pth'')) toy_loaders))) = 2
   \<and> map fst (eval_calls
        (snd (main (toy_env auc_half) (toy_config 2 (Some ''ckpt.pth'')) toy_loaders))) =
       [TrainSplit, ValSplit, TestSplit, TrainSplit, ValSplit, TestSplit,
        TrainSplit, ValSplit, TestSplit, TrainSplit, ValSplit, TestSplit]"
  using main_trains_n_times_and_evaluates_in_order
    [where cfg = "toy_config 2 (Some ''ckpt.pth'')" and L = toy_loaders
       and E = "toy_env auc_half"]
  by (simp add: toy_hyps toy_config_fields numeral_eq_Suc)

text \<open>
  C10. The evaluator is handed the output directory as \<^verbatim>\<open>save_folder\<close> (and so writes its
  results file) only in the evaluation of a resumed checkpoint and in the final
  evaluation; every evaluator call of the epoch loop carries \<^verbatim>\<open>None\<close>.
\<close>

theorem save_folder_only_in_resume_and_final_evaluation:
  assumes "valid_flag cfg" and "eval_loaders_nonempty L"
    and "train_loaders_nonempty L (nat (num_epochs cfg))"
  shows "eval_calls (snd (main E cfg L)) =
           (case model_path cfg of None \<Rightarrow> [] | Some p \<Rightarrow> pass (Some (output_root cfg))) @
           (if num_epochs cfg = 0 then []
            else concat (replicate (nat (num_epochs cfg)) (pass None)) @
                 pass (Some (output_root cfg)))
    \<and> eval_calls (trace (snd (after_loop E cfg L))) =
           eval_calls (trace (start_state E cfg L)) @
           concat (replicate (nat (num_epochs cfg)) (pass None))"
proof (cases "num_epochs cfg = 0")
  case True
  then show ?thesis
    using assms
    by (simp add: main_zero_epochs resume_events_eval_calls after_loop_def epoch_range_def)
next
  case False
  have "eval_calls (trace (snd (after_loop E cfg L))) =
           eval_calls (trace (start_state E cfg L)) @
           concat (replicate (nat (num_epochs cfg)) (pass None))"
    unfolding after_loop_def epoch_range_def
    using epochs_eval_calls [OF train_loaders_nonempty_set [OF assms(3)] assms(2)]
    by simp
  then show ?thesis
    using False by (simp add: main_eval_calls [OF assms(1,2) False assms(3)])
qed

theorem save_folder_only_in_resume_and_final_evaluation_witness:
  "valid_flag (toy_config 1 (Some ''ckpt.pth''))
   \<and> eval_loaders_nonempty toy_loaders
   \<and> train_loaders_nonempty toy_loaders (nat (num_epochs (toy_config 1 (Some ''ckpt.pth''))))
   \<and> eval_calls (snd (main (toy_env auc_half) (toy_config 1 (Some ''ckpt.pth'')) toy_loaders)) =
       [(TrainSplit, Some ''out''), (ValSplit, Some ''out''), (TestSplit, Some ''out''),
        (TrainSplit, None), (ValSplit, None), (TestSplit, None),
        (TrainSplit, Some ''out''), (ValSplit, Some ''out''), (TestSplit, Some ''out'')]"
  using save_folder_only_in_resume_and_final_evaluation
    [where cfg = "toy_config 1 (Some ''ckpt.pth'')" and L = toy_loaders
       and E = "toy_env auc_half"]
  by (simp add: toy_hyps toy_config_fields pass_def)

subsection \<open>The global step counter\<close>

lemma start_state_iteration: "iteration (start_state E cfg L) = 0"
  by (simp add: start_state_def init_train_fields split: prod.splits)

lemma train_iteration: "iteration (snd (train E bs st)) = iteration st + length bs"
  by (simp add: train_state)

lemma toy_train_loader: "train_loader toy_loaders k = [2, 4]"
  by (simp add: toy_loaders_def)

text \<open>
  C5. The global step counter is 0 when the loop is entered; one call of \<^verbatim>\<open>train\<close> raises
  it by the number of batches it processes, logging the batches under consecutive steps;
  after \<open>n\<close> epochs it is the number of all batches trained so far, and the steps logged
  over the whole run are \<open>0, 1, 2, \<dots>\<close> without a gap or a restart.
\<close>

theorem global_step_counts_batches_across_epochs:
  assumes "eval_loaders_nonempty L" and "train_loaders_nonempty L n"
  shows "iteration (start_state E cfg L) = 0
    \<and> iteration (snd (train E bs st)) = iteration st + length bs
    \<and> loss_steps (trace (snd (train E bs st))) =
        loss_steps (trace st) @ [iteration st..<iteration st + length bs]
    \<and> iteration (state_after E cfg L n) =
        sum_list (map (\<lambda>k. length (train_loader L k)) [0..<n])
    \<and> loss_steps (trace (state_after E cfg L n)) =
        [0..<sum_list (map (\<lambda>k. length (train_loader L k)) [0..<n])]"
  by (simp add: start_state_iteration train_state trace_appends train_events_loss_steps
      state_after_trace_counts [OF assms])

theorem global_step_counts_batches_across_epochs_witness:
  "eval_loaders_nonempty toy_loaders
   \<and> train_loaders_nonempty toy_loaders 3
   \<and> iteration (start_state (toy_env auc_half) (toy_config 3 None) toy_loaders) = 0
   \<and> iteration (snd (train (toy_env auc_half) [2, 4] toy_state)) = 2
   \<and> iteration (state_after (toy_env auc_half) (toy_config 3 None) toy_loaders 3) = 6
   \<and> loss_steps (trace (state_after (toy_env auc_half) (toy_config 3 None) toy_loaders 3)) =
       [0, 1, 2, 3, 4, 5]"
  using global_step_counts_batches_across_epochs
    [where L = toy_loaders and n = 3 and E = "toy_env auc_half" and cfg = "toy_config 3 None"
       and bs = "[2, 4]" and st = toy_state]
  by (simp add: toy_hyps toy_train_loader toy_state_def init_train_fields upt_rec numeral_eq_Suc)

subsection \<open>An epoch count of zero\<close>

lemma test_trace: "snd (test E m sp bs r save_folder tr) = tr @ test_events E m sp bs r save_folder"
  by (cases "bs = []") (simp_all add: test_empty test_nonempty)

lemma test_trace_dest:
  "test E m sp bs r save_folder tr = (a, tr') \<Longrightarrow> tr' = tr @ test_events E m sp bs r save_folder"
  using test_trace [of E m sp bs r save_folder tr] by simp

lemma eval_splits_plain:
  "filter is_optimizer_step (snd (eval_splits E m L r save_folder tr)) = filter is_optimizer_step tr"
  "filter is_train_call (snd (eval_splits E m L r save_folder tr)) = filter is_train_call tr"
  "filter is_compare (snd (eval_splits E m L r save_folder tr)) = filter is_compare tr"
  "saved (snd (eval_splits E m L r save_folder tr)) = saved tr"
  by (auto simp: eval_splits_def test_events_def saved_append
      split: prod.splits sum.splits dest!: test_trace_dest)

lemma resume_eval_plain:
  "filter is_optimizer_step (snd (snd (resume_eval E cfg L m tr))) = filter is_optimizer_step tr"
  "filter is_train_call (snd (snd (resume_eval E cfg L m tr))) = filter is_train_call tr"
  "filter is_compare (snd (snd (resume_eval E cfg L m tr))) = filter is_compare tr"
  "saved (snd (snd (resume_eval E cfg L m tr))) = saved tr"
proof -
  have tr: "snd (snd (resume_eval E cfg L m tr)) =
      (case model_path cfg of None \<Rightarrow> tr
       | Some p \<Rightarrow> snd (eval_splits E (load_state_dict E p m) L (run cfg)
                        (Some (output_root cfg)) (tr @ [LoadStateDict p])))"
    by (simp add: resume_eval_def Let_def split: option.splits prod.splits sum.splits)
  show "filter is_optimizer_step (snd (snd (resume_eval E cfg L m tr))) = filter is_optimizer_step tr"
    "filter is_train_call (snd (snd (resume_eval E cfg L m tr))) = filter is_train_call tr"
    "filter is_compare (snd (snd (resume_eval E cfg L m tr))) = filter is_compare tr"
    "saved (snd (snd (resume_eval E cfg L m tr))) = saved tr"
    by (simp_all add: tr eval_splits_plain saved_append split: option.splits)
qed

lemma main_zero_trace:
  assumes "num_epochs cfg = 0"
  shows "snd (main E cfg L) =
           (if valid_flag cfg then snd (snd (resume_eval E cfg L (build E (model_flag cfg)) []))
            else [])"
  using assms by (simp add: main_def valid_flag_def split: prod.splits sum.splits)

text \<open>
  C7. With an epoch count of zero the driver makes no call of \<^verbatim>\<open>train\<close>, no optimizer
  step and no checkpoint comparison and saves no checkpoint, whatever the other inputs
  are; with a known backbone and non-empty evaluation loaders it returns normally right
  after the evaluation of the resumed checkpoint, which (when a path is given) is one
  pass over the three splits, and after nothing at all when no path is given.
\<close>

theorem zero_epochs_return_after_resume_evaluation:
  assumes "num_epochs cfg = 0"
  shows "filter is_optimizer_step (snd (main E cfg L)) = []
    \<and> filter is_train_call (snd (main E cfg L)) = []
    \<and> filter is_compare (snd (main E cfg L)) = []
    \<and> saved (snd (main E cfg L)) = []
    \<and> (valid_flag cfg \<and> eval_loaders_nonempty L \<longrightarrow>
         main E cfg L = (Inr (), resume_events E cfg L)
         \<and> eval_calls (snd (main E cfg L)) =
             (case model_path cfg of None \<Rightarrow> []
              | Some p \<Rightarrow> pass (Some (output_root cfg))))"
  using assms
  by (simp add: main_zero_trace resume_eval_plain main_zero_epochs resume_events_eval_calls)

theorem zero_epochs_return_after_resume_evaluation_witness:
  "num_epochs (toy_config 0 (Some ''ckpt.pth'')) = 0
   \<and> valid_flag (toy_config 0 (Some ''ckpt.pth''))
   \<and> eval_loaders_nonempty toy_loaders
   \<and> filter is_optimizer_step
        (snd (main (toy_env auc_half) (toy_config 0 (Some ''ckpt.pth'')) toy_loaders)) = []
   \<and> filter is_compare
        (snd (main (toy_env auc_half) (toy_config 0 (Some ''ckpt.pth'')) toy_loaders)) = []
   \<and> saved (snd (main (toy_env auc_half) (toy_config 0 (Some ''ckpt.pth'')) toy_loaders)) = []
   \<and> fst (main (toy_env auc_half) (toy_config 0 (Some ''ckpt.pth'')) toy_loaders) = Inr ()
   \<and> eval_calls
        (snd (main (toy_env auc_half) (toy_config 0 (Some ''ckpt.pth'')) toy_loaders)) =
       [(TrainSplit, Some ''out''), (ValSplit, Some ''out''), (TestSplit, Some ''out'')]"
  using zero_epochs_return_after_resume_evaluation
    [where cfg = "toy_config 0 (Some ''ckpt.pth'')" and L = toy_loaders
       and E = "toy_env auc_half"]
  by (simp add: toy_hyps toy_config_fields pass_def resume_events_plain
      resume_events_eval_calls)

subsection \<open>A negative epoch count\<close>

lemma after_loop_negative:
  assumes "num_epochs cfg < 0"
  shows "after_loop E cfg L = (Inr (), start_state E cfg L)"
  using assms by (simp add: after_loop_def epoch_range_def)

text \<open>
  C9. A negative epoch count does not take the early exit of line 117. With a known
  backbone and non-empty evaluation loaders the driver then trains nothing and compares
  nothing, but opens the writer, saves the parameters it started with (freshly built, or
  loaded from the resumed checkpoint) as the checkpoint, runs the final evaluation of the
  three splits on these parameters and appends the log block.
\<close>

theorem negative_epochs_save_and_evaluate_initial_model:
  assumes "num_epochs cfg < 0" and "valid_flag cfg" and "eval_loaders_nonempty L"
  shows "main E cfg L =
    (Inr (),
     resume_events E cfg L @
     [WriterOpen (path_join (output_root cfg) ''Tensorboard_Results''),
      TorchSave (path_join (output_root cfg) ''best_model.pth'') (initial_model E cfg)] @
     eval_events E (initial_model E cfg) L (run cfg) (Some (output_root cfg)) @
     [AppendLog (path_join (output_root cfg) (data_flag cfg @ ''_log.txt'')) (data_flag cfg)
        (metrics E (initial_model E cfg) TrainSplit (train_loader_at_eval L))
        (metrics E (initial_model E cfg) ValSplit (val_loader L))
        (metrics E (initial_model E cfg) TestSplit (test_loader L)),
      WriterClose])
    \<and> filter is_train_call (snd (main E cfg L)) = []
    \<and> filter is_optimizer_step (snd (main E cfg L)) = []
    \<and> filter is_compare (snd (main E cfg L)) = []
    \<and> saved (snd (main E cfg L)) =
        [(path_join (output_root cfg) ''best_model.pth'', initial_model E cfg)]"
proof -
  have nz: "num_epochs cfg \<noteq> 0"
    using assms(1) by simp
  have tr: "train_loaders_nonempty L (nat (num_epochs cfg))"
    using assms(1) by (simp add: train_loaders_nonempty_def)
  have m: "main E cfg L =
    (Inr (),
     resume_events E cfg L @
     [WriterOpen (path_join (output_root cfg) ''Tensorboard_Results''),
      TorchSave (path_join (output_root cfg) ''best_model.pth'') (initial_model E cfg)] @
     eval_events E (initial_model E cfg) L (run cfg) (Some (output_root cfg)) @
     [AppendLog (path_join (output_root cfg) (data_flag cfg @ ''_log.txt'')) (data_flag cfg)
        (metrics E (initial_model E cfg) TrainSplit (train_loader_at_eval L))
        (metrics E (initial_model E cfg) ValSplit (val_loader L))
        (metrics E (initial_model E cfg) TestSplit (test_loader L)),
      WriterClose])"
    by (simp add: main_trace [OF assms(2,3) nz tr] after_loop_negative [OF assms(1)]
        start_state_nonempty [OF assms(3)] init_train_fields)
  show ?thesis
    by (simp add: m resume_events_plain eval_events_plain saved_append)
qed

lemma toy_initial_model:
  "initial_model (toy_env f) (toy_config n None) = 0"
  "initial_model (toy_env f) (toy_config n (Some p)) = 100"
  by (simp_all add: initial_model_def toy_env_def toy_config_def)

lemma toy_checkpoint_path: "path_join ''out'' ''best_model.pth'' = ''out/best_model.pth''"
  by (simp add: path_join_def)

theorem negative_epochs_save_and_evaluate_initial_model_witness:
  "num_epochs (toy_config (- 3) (Some ''ckpt.pth'')) < 0
   \<and> valid_flag (toy_config (- 3) (Some ''ckpt.pth''))
   \<and> eval_loaders_nonempty toy_loaders
   \<and> fst (main (toy_env auc_half) (toy_config (- 3) (Some ''ckpt.pth'')) toy_loaders) = Inr ()
   \<and> filter is_train_call
        (snd (main (toy_env auc_half) (toy_config (- 3) (Some ''ckpt.pth'')) toy_loaders)) = []
   \<and> filter is_compare
        (snd (main (toy_env auc_half) (toy_config (- 3) (Some ''ckpt.pth'')) toy_loaders)) = []
   \<and> saved (snd (main (toy_env auc_half) (toy_config (- 3) (Some ''ckpt.pth'')) toy_loaders)) =
       [(''out/best_model.pth'', 100)]"
  using negative_epochs_save_and_evaluate_initial_model
    [where cfg = "toy_config (- 3) (Some ''ckpt.pth'')" and L = toy_loaders
       and E = "toy_env auc_half"]
  by (simp add: toy_hyps toy_config_fields toy_initial_model toy_checkpoint_path
      resume_events_plain eval_events_plain saved_append)

subsection \<open>The learning-rate schedule\<close>

lemma milestones_100: "milestones 100 = [50, 75]"
  by (simp add: milestones_def)

lemma real_nat_eq_numeral: "real n = numeral w \<longleftrightarrow> n = numeral w"
  by (metis of_nat_eq_iff of_nat_numeral)

lemma scheduler_step_100:
  "lr (scheduler_step (milestones 100) gamma st) =
     (if last_epoch st + 1 = 50 \<or> last_epoch st + 1 = 75 then lr st * (1 / 10) else lr st)"
proof -
  have a: "real (last_epoch st + 1) = 50 \<longleftrightarrow> last_epoch st + 1 = 50"
    by (rule real_nat_eq_numeral)
  have b: "real (last_epoch st + 1) = 75 \<longleftrightarrow> last_epoch st + 1 = 75"
    by (rule real_nat_eq_numeral)
  show ?thesis
    unfolding scheduler_step_lr milestones_100 gamma_def
    using a b by auto
qed

text \<open>
  C8. The milestones handed to the scheduler are one half and three quarters of the epoch
  count. For an epoch count of 100 they are 50 and 75: the scheduler step that brings its
  epoch counter to 50 or to 75 multiplies the learning rate by 0.1, every other step
  leaves it unchanged; and in a run of 100 epochs, which starts at the initial rate with
  the counter at 0, the step at the end of each epoch is such a step, the counter being
  the number of epochs done.
\<close>

theorem learning_rate_decays_at_half_and_three_quarters:
  assumes "num_epochs cfg = 100" and "eval_loaders_nonempty L"
    and "train_loaders_nonempty L (Suc k)"
  shows "milestones n = [real_of_int n / 2, 3 * real_of_int n / 4]
    \<and> gamma = 1 / 10
    \<and> lr (scheduler_step (milestones 100) gamma st) =
        (if last_epoch st + 1 = 50 \<or> last_epoch st + 1 = 75 then lr st * (1 / 10) else lr st)
    \<and> last_epoch (scheduler_step (milestones 100) gamma st) = last_epoch st + 1
    \<and> lr (state_after E cfg L 0) = initial_lr (model_flag cfg)
    \<and> last_epoch (state_after E cfg L (Suc k)) = Suc k
    \<and> lr (state_after E cfg L (Suc k)) =
        (if Suc k = 50 \<or> Suc k = 75 then lr (state_after E cfg L k) * (1 / 10)
         else lr (state_after E cfg L k))"
proof -
  have trk: "train_loaders_nonempty L k"
    using assms(3) by (rule train_loaders_nonempty_mono) simp
  have last: "train_loader L k \<noteq> []"
    using assms(3) by (rule train_loaders_nonempty_less) simp
  have le: "last_epoch (state_after E cfg L k) = k"
    by (rule state_after_trace_counts [OF assms(2) trk])
  have "lr (state_after E cfg L (Suc k)) =
          lr (scheduler_step (milestones 100) gamma (state_after E cfg L k))"
    by (simp add: state_after_Suc [OF assms(2,3)] epoch_body_lr [OF last assms(2)]
        scheduler_step_lr assms(1))
  then have run: "lr (state_after E cfg L (Suc k)) =
        (if Suc k = 50 \<or> Suc k = 75 then lr (state_after E cfg L k) * (1 / 10)
         else lr (state_after E cfg L k))"
    by (simp add: scheduler_step_100 le)
  have start: "lr (state_after E cfg L 0) = initial_lr (model_flag cfg)"
    by (simp add: state_after_0 start_state_nonempty [OF assms(2)] init_train_fields)
  have ms: "milestones n = [real_of_int n / 2, 3 * real_of_int n / 4]"
    by (simp add: milestones_def)
  have g: "gamma = 1 / 10"
    by (simp add: gamma_def)
  have step: "lr (scheduler_step (milestones 100) gamma st) =
        (if last_epoch st + 1 = 50 \<or> last_epoch st + 1 = 75 then lr st * (1 / 10) else lr st)"
    by (rule scheduler_step_100)
  have cnt: "last_epoch (scheduler_step (milestones 100) gamma st) = last_epoch st + 1"
    by (rule scheduler_step_frame)
  have cnt_run: "last_epoch (state_after E cfg L (Suc k)) = Suc k"
    by (rule state_after_trace_counts [OF assms(2,3)])
  from ms g step cnt start cnt_run run show ?thesis
    by blast
qed

theorem learning_rate_decays_at_half_and_three_quarters_witness:
  "num_epochs (toy_config 100 None) = 100
   \<and> eval_loaders_nonempty toy_loaders
   \<and> train_loaders_nonempty toy_loaders (Suc 49)
   \<and> milestones 100 = [50, 75]
   \<and> lr (state_after (toy_env auc_half) (toy_config 100 None) toy_loaders (Suc 49)) =
       lr (state_after (toy_env auc_half) (toy_config 100 None) toy_loaders 49) * (1 / 10)"
  using learning_rate_decays_at_half_and_three_quarters
    [where cfg = "toy_config 100 None" and L = toy_loaders and k = 49 and n = 100
       and E = "toy_env auc_half" and st = toy_state]
  by (simp add: toy_hyps toy_config_fields)

subsection \<open>The checkpoint file\<close>

lemma state_after_model:
  assumes ev: "eval_loaders_nonempty L" and tr: "train_loaders_nonempty L (Suc k)"
  shows "model (state_after E cfg L (Suc k)) =
           snd (trained E (lr (state_after E cfg L k)) (train_loader L k)
                  (ostate (state_after E cfg L k)) (model (state_after E cfg L k)))"
  by (simp add: state_after_Suc [OF ev tr]
      epoch_body_params [OF train_loaders_nonempty_less [OF tr] ev])

lemma state_after_best:
  assumes ev: "eval_loaders_nonempty L" and tr: "train_loaders_nonempty L (Suc k)"
  shows "best_auc (state_after E cfg L (Suc k)) =
           (if epoch_val_auc E cfg L k > best_auc (state_after E cfg L k)
            then epoch_val_auc E cfg L k else best_auc (state_after E cfg L k))"
    and "best_epoch (state_after E cfg L (Suc k)) =
           (if epoch_val_auc E cfg L k > best_auc (state_after E cfg L k)
            then k else best_epoch (state_after E cfg L k))"
    and "best_model (state_after E cfg L (Suc k)) =
           (if epoch_val_auc E cfg L k > best_auc (state_after E cfg L k)
            then model (state_after E cfg L (Suc k)) else best_model (state_after E cfg L k))"
  unfolding epoch_val_auc_def
  by (simp_all add: state_after_Suc [OF ev tr]
      epoch_body_best [OF train_loaders_nonempty_less [OF tr] ev])

lemma state_after_start:
  assumes ev: "eval_loaders_nonempty L"
  shows "model (state_after E cfg L 0) = initial_model E cfg"
    and "best_model (state_after E cfg L 0) = initial_model E cfg"
    and "best_auc (state_after E cfg L 0) = 0"
    and "best_epoch (state_after E cfg L 0) = 0"
  by (simp_all add: state_after_0 start_state_nonempty [OF ev] init_train_fields)

lemma toy_trained: "trained (toy_env f) r bs os m = ((), m + length bs)"
  by (induction bs arbitrary: os m) (simp_all add: toy_env_def)

lemma toy_val_auc: "val_auc (toy_env f) toy_loaders m = f m"
  by (simp add: val_auc_def all_scores_def toy_env_def toy_loaders_def)

lemma toy_model_after:
  "model (state_after (toy_env f) (toy_config n p) toy_loaders k) =
     initial_model (toy_env f) (toy_config n p) + 2 * k"
proof (induction k)
  case 0
  show ?case by (simp add: state_after_start toy_hyps)
next
  case (Suc k)
  show ?case
    by (simp add: state_after_model toy_hyps toy_trained toy_train_loader Suc.IH
        del: trained.simps)
qed

lemma toy_epoch_val_auc:
  "epoch_val_auc (toy_env f) (toy_config n p) toy_loaders k =
     f (initial_model (toy_env f) (toy_config n p) + 2 * Suc k)"
  by (simp only: epoch_val_auc_def toy_val_auc toy_model_after)

text \<open>
  C1 (the code departs from the claim). The run: two epochs, no resumed checkpoint; the
  validation AUC is 0.9 after the first epoch (parameters 2) and 0.5 after the second
  (parameters 4). The best snapshot is that of the first epoch, and the final evaluation
  uses it, but the checkpoint written to \<^verbatim>\<open>best_model.pth\<close> holds the parameters of the
  live model after the second epoch: line 173 serializes \<^verbatim>\<open>model.state_dict()\<close>.
\<close>

theorem checkpoint_holds_live_model_not_best:
  "best_epoch (snd (after_loop (toy_env auc_peak)
      (toy_config 2 None) toy_loaders)) = 0
   \<and> best_auc (snd (after_loop (toy_env auc_peak)
      (toy_config 2 None) toy_loaders)) = 9 / 10
   \<and> best_model (snd (after_loop (toy_env auc_peak)
      (toy_config 2 None) toy_loaders)) = 2
   \<and> model (snd (after_loop (toy_env auc_peak)
      (toy_config 2 None) toy_loaders)) = 4
   \<and> saved (snd (main (toy_env auc_peak)
      (toy_config 2 None) toy_loaders)) = [(''out/best_model.pth'', 4)]"
proof -
  let ?E = "toy_env auc_peak"
  let ?c = "toy_config 2 None"
  have two: "nat (num_epochs ?c) = Suc (Suc 0)"
    by (simp add: toy_config_fields)
  have s: "snd (after_loop ?E ?c toy_loaders) = state_after ?E ?c toy_loaders (Suc (Suc 0))"
    by (simp only: after_loop_state two)
  have m: "model (state_after ?E ?c toy_loaders (Suc (Suc 0))) = 4"
    by (simp add: toy_model_after toy_initial_model)
  have best:
    "best_epoch (state_after ?E ?c toy_loaders (Suc (Suc 0))) = 0"
    "best_auc (state_after ?E ?c toy_loaders (Suc (Suc 0))) = 9 / 10"
    "best_model (state_after ?E ?c toy_loaders (Suc (Suc 0))) = 2"
    by (simp_all add: state_after_best state_after_start toy_hyps toy_epoch_val_auc
        toy_model_after toy_initial_model auc_peak_def)
  have "saved (snd (main ?E ?c toy_loaders)) =
          [(path_join (output_root ?c) ''best_model.pth'', model (snd (after_loop ?E ?c toy_loaders)))]"
    by (rule main_saved) (simp_all add: toy_hyps toy_config_fields)
  then have sv: "saved (snd (main ?E ?c toy_loaders)) = [(''out/best_model.pth'', 4)]"
    by (simp add: s m toy_config_fields toy_checkpoint_path)
  show ?thesis
    using best m sv by (simp add: s)
qed

subsection \<open>Tracking the best validation AUC\<close>

lemma Max_insert0_Suc:
  "Max (insert (0::real) (a ` {..<Suc n})) = max (a n) (Max (insert 0 (a ` {..<n})))"
proof -
  have "insert (0::real) (a ` {..<Suc n}) = insert (a n) (insert 0 (a ` {..<n}))"
    by (auto simp: lessThan_Suc)
  then show ?thesis
    by (simp add: Max_insert)
qed

lemma best_auc_running_max:
  assumes ev: "eval_loaders_nonempty L" and tr: "train_loaders_nonempty L n"
  shows "best_auc (state_after E cfg L n) = Max (insert 0 (epoch_val_auc E cfg L ` {..<n}))"
  using tr
proof (induction n)
  case 0
  show ?case by (simp add: state_after_start [OF ev])
next
  case (Suc n)
  have pre: "train_loaders_nonempty L n"
    using Suc.prems by (rule train_loaders_nonempty_mono) simp
  have "best_auc (state_after E cfg L (Suc n)) =
          max (epoch_val_auc E cfg L n) (best_auc (state_after E cfg L n))"
    by (auto simp: state_after_best [OF ev Suc.prems] max_def)
  also have "\<dots> = max (epoch_val_auc E cfg L n) (Max (insert 0 (epoch_val_auc E cfg L ` {..<n})))"
    by (simp only: Suc.IH [OF pre])
  also have "\<dots> = Max (insert 0 (epoch_val_auc E cfg L ` {..<Suc n}))"
    by (simp only: Max_insert0_Suc)
  finally show ?case .
qed

lemma best_snapshot_invariant:
  assumes ev: "eval_loaders_nonempty L" and tr: "train_loaders_nonempty L n"
  shows "if 0 < best_auc (state_after E cfg L n)
         then best_epoch (state_after E cfg L n) < n
            \<and> epoch_val_auc E cfg L (best_epoch (state_after E cfg L n)) =
                best_auc (state_after E cfg L n)
            \<and> (\<forall>j < best_epoch (state_after E cfg L n).
                  epoch_val_auc E cfg L j < best_auc (state_after E cfg L n))
            \<and> best_model (state_after E cfg L n) =
                model (state_after E cfg L (Suc (best_epoch (state_after E cfg L n))))
         else best_auc (state_after E cfg L n) = 0
            \<and> best_epoch (state_after E cfg L n) = 0
            \<and> best_model (state_after E cfg L n) = initial_model E cfg"
  using tr
proof (induction n)
  case 0
  show ?case by (simp add: state_after_start [OF ev])
next
  case (Suc n)
  have pre: "train_loaders_nonempty L n"
    using Suc.prems by (rule train_loaders_nonempty_mono) simp
  note IH = Suc.IH [OF pre]
  note step = state_after_best [OF ev Suc.prems, of E cfg]
  have ub: "\<forall>j < n. epoch_val_auc E cfg L j \<le> best_auc (state_after E cfg L n)"
    unfolding best_auc_running_max [OF ev pre, of E cfg] by auto
  show ?case
  proof (cases "epoch_val_auc E cfg L n > best_auc (state_after E cfg L n)")
    case True
    have nonneg: "0 \<le> best_auc (state_after E cfg L n)"
      unfolding best_auc_running_max [OF ev pre, of E cfg] by auto
    show ?thesis
      using True nonneg ub by (auto simp add: step)
  next
    case False
    show ?thesis
      using False IH by (auto simp add: step split: if_splits)
  qed
qed

lemma state_after_compares:
  assumes ev: "eval_loaders_nonempty L" and tr: "train_loaders_nonempty L n"
  shows "filter is_compare (trace (state_after E cfg L n)) =
           map (\<lambda>k. Compare k (epoch_val_auc E cfg L k) (best_auc (state_after E cfg L k)))
             [0..<n]"
  using tr
proof (induction n)
  case 0
  show ?case
    by (simp add: state_after_0 start_state_nonempty [OF ev] init_train_fields
        resume_events_plain)
next
  case (Suc n)
  have pre: "train_loaders_nonempty L n"
    using Suc.prems by (rule train_loaders_nonempty_mono) simp
  have last: "train_loader L n \<noteq> []"
    using Suc.prems by (rule train_loaders_nonempty_less) simp
  have "filter is_compare (trace (state_after E cfg L (Suc n))) =
          filter is_compare (trace (state_after E cfg L n)) @
            [Compare n (val_auc E L (model (state_after E cfg L (Suc n))))
               (best_auc (state_after E cfg L n))]"
    by (simp add: state_after_Suc [OF ev Suc.prems] epoch_body_compares [OF last ev])
  then show ?case
    by (simp add: Suc.IH [OF pre] epoch_val_auc_def)
qed

lemma Max_insert0_positive:
  assumes "k < (n::nat)" and "(0::real) < a k"
  shows "Max (insert 0 (a ` {..<n})) = Max (a ` {..<n})" and "0 < Max (a ` {..<n})"
proof -
  have ne: "a ` {..<n} \<noteq> {}" and fin: "finite (a ` {..<n})"
    using assms(1) by auto
  have "a k \<le> Max (a ` {..<n})"
    using assms(1) by (intro Max_ge) auto
  then show pos: "0 < Max (a ` {..<n})"
    using assms(2) by linarith
  show "Max (insert 0 (a ` {..<n})) = Max (a ` {..<n})"
    using pos by (simp add: Max_insert [OF fin ne] max_def)
qed

lemma Max_insert0_nonpositive:
  assumes "\<forall>k < (n::nat). a k \<le> (0::real)"
  shows "Max (insert 0 (a ` {..<n})) = 0"
proof (rule Max_eqI)
  show "finite (insert 0 (a ` {..<n}))" by simp
  show "0 \<in> insert 0 (a ` {..<n})" by simp
  show "y \<le> 0" if "y \<in> insert 0 (a ` {..<n})" for y
    using that assms by auto
qed

text \<open>
  C2 (amended). The running best starts at 0 with the parameters the loop is entered with
  and best epoch 0. Each epoch compares the validation AUC of its trained model with the
  running best and replaces the best AUC, the best epoch and the snapshot exactly when it
  is strictly greater. After \<open>n \<ge> 1\<close> epochs the recorded best AUC is the maximum of 0 and
  the per-epoch validation AUCs. If some epoch's validation AUC is positive, it is the
  maximum of the per-epoch values, the best epoch is the earliest epoch attaining it, and
  the snapshot is the model of that epoch. If none is positive, the best AUC is 0, the
  best epoch 0, and the snapshot is still the initial model.
\<close>

theorem best_snapshot_tracks_strict_improvements_over_zero:
  assumes "eval_loaders_nonempty L" and "train_loaders_nonempty L n" and "1 \<le> n"
    and "n = nat (num_epochs cfg)"
  shows "snd (after_loop E cfg L) = state_after E cfg L n
    \<and> filter is_compare (trace (state_after E cfg L n)) =
        map (\<lambda>k. Compare k (epoch_val_auc E cfg L k) (best_auc (state_after E cfg L k)))
          [0..<n]
    \<and> best_auc (state_after E cfg L 0) = 0
    \<and> best_epoch (state_after E cfg L 0) = 0
    \<and> best_model (state_after E cfg L 0) = initial_model E cfg
    \<and> (\<forall>k < n.
          if epoch_val_auc E cfg L k > best_auc (state_after E cfg L k)
          then best_auc (state_after E cfg L (Suc k)) = epoch_val_auc E cfg L k
             \<and> best_epoch (state_after E cfg L (Suc k)) = k
             \<and> best_model (state_after E cfg L (Suc k)) = model (state_after E cfg L (Suc k))
          else best_auc (state_after E cfg L (Suc k)) = best_auc (state_after E cfg L k)
             \<and> best_epoch (state_after E cfg L (Suc k)) = best_epoch (state_after E cfg L k)
             \<and> best_model (state_after E cfg L (Suc k)) = best_model (state_after E cfg L k))
    \<and> best_auc (state_after E cfg L n) = Max (insert 0 (epoch_val_auc E cfg L ` {..<n}))
    \<and> ((\<exists>k < n. 0 < epoch_val_auc E cfg L k) \<longrightarrow>
          best_auc (state_after E cfg L n) = Max (epoch_val_auc E cfg L ` {..<n})
          \<and> best_epoch (state_after E cfg L n) < n
          \<and> epoch_val_auc E cfg L (best_epoch (state_after E cfg L n)) =
              Max (epoch_val_auc E cfg L ` {..<n})
          \<and> (\<forall>j < best_epoch (state_after E cfg L n).
                epoch_val_auc E cfg L j < Max (epoch_val_auc E cfg L ` {..<n}))
          \<and> best_model (state_after E cfg L n) =
              model (state_after E cfg L (Suc (best_epoch (state_after E cfg L n)))))
    \<and> ((\<forall>k < n. epoch_val_auc E cfg L k \<le> 0) \<longrightarrow>
          best_auc (state_after E cfg L n) = 0
          \<and> best_epoch (state_after E cfg L n) = 0
          \<and> best_model (state_after E cfg L n) = initial_model E cfg)"
proof -
  note ev = assms(1) and tr = assms(2)
  let ?S = "state_after E cfg L"
  let ?a = "epoch_val_auc E cfg L"
  have final: "snd (after_loop E cfg L) = ?S n"
    by (simp add: after_loop_state assms(4))
  have cmp: "filter is_compare (trace (?S n)) =
      map (\<lambda>k. Compare k (?a k) (best_auc (?S k))) [0..<n]"
    by (rule state_after_compares [OF ev tr])
  have start: "best_auc (?S 0) = 0" "best_epoch (?S 0) = 0" "best_model (?S 0) = initial_model E cfg"
    by (simp_all add: state_after_start [OF ev])
  have step: "\<forall>k < n.
          if ?a k > best_auc (?S k)
          then best_auc (?S (Suc k)) = ?a k \<and> best_epoch (?S (Suc k)) = k
             \<and> best_model (?S (Suc k)) = model (?S (Suc k))
          else best_auc (?S (Suc k)) = best_auc (?S k)
             \<and> best_epoch (?S (Suc k)) = best_epoch (?S k)
             \<and> best_model (?S (Suc k)) = best_model (?S k)"
  proof (intro allI impI)
    fix k assume "k < n"
    then have trk: "train_loaders_nonempty L (Suc k)"
      using tr by (intro train_loaders_nonempty_mono [OF tr]) simp
    show "if ?a k > best_auc (?S k)
          then best_auc (?S (Suc k)) = ?a k \<and> best_epoch (?S (Suc k)) = k
             \<and> best_model (?S (Suc k)) = model (?S (Suc k))
          else best_auc (?S (Suc k)) = best_auc (?S k)
             \<and> best_epoch (?S (Suc k)) = best_epoch (?S k)
             \<and> best_model (?S (Suc k)) = best_model (?S k)"
      by (simp add: state_after_best [OF ev trk])
  qed
  have mx: "best_auc (?S n) = Max (insert 0 (?a ` {..<n}))"
    by (rule best_auc_running_max [OF ev tr])
  note inv = best_snapshot_invariant [OF ev tr, of E cfg]
  have pos: "(\<exists>k < n. 0 < ?a k) \<longrightarrow>
          best_auc (?S n) = Max (?a ` {..<n})
          \<and> best_epoch (?S n) < n
          \<and> ?a (best_epoch (?S n)) = Max (?a ` {..<n})
          \<and> (\<forall>j < best_epoch (?S n). ?a j < Max (?a ` {..<n}))
          \<and> best_model (?S n) = model (?S (Suc (best_epoch (?S n))))"
  proof
    assume "\<exists>k < n. 0 < ?a k"
    then obtain k where k: "k < n" "0 < ?a k" by blast
    have eq: "best_auc (?S n) = Max (?a ` {..<n})"
      using mx Max_insert0_positive(1) [of k n ?a] k by simp
    have gt: "0 < best_auc (?S n)"
      using eq Max_insert0_positive(2) [of k n ?a] k by simp
    show "best_auc (?S n) = Max (?a ` {..<n})
          \<and> best_epoch (?S n) < n
          \<and> ?a (best_epoch (?S n)) = Max (?a ` {..<n})
          \<and> (\<forall>j < best_epoch (?S n). ?a j < Max (?a ` {..<n}))
          \<and> best_model (?S n) = model (?S (Suc (best_epoch (?S n))))"
      using inv gt eq by simp
  qed
  have nonpos: "(\<forall>k < n. ?a k \<le> 0) \<longrightarrow>
          best_auc (?S n) = 0 \<and> best_epoch (?S n) = 0 \<and> best_model (?S n) = initial_model E cfg"
  proof
    assume "\<forall>k < n. ?a k \<le> 0"
    then have "best_auc (?S n) = 0"
      using mx Max_insert0_nonpositive [of n ?a] by simp
    then show "best_auc (?S n) = 0 \<and> best_epoch (?S n) = 0
        \<and> best_model (?S n) = initial_model E cfg"
      using inv by simp
  qed
  from final cmp start step mx pos nonpos show ?thesis
    by blast
qed

theorem best_snapshot_tracks_strict_improvements_over_zero_witness:
  "eval_loaders_nonempty toy_loaders
   \<and> train_loaders_nonempty toy_loaders 2
   \<and> (1::nat) \<le> 2
   \<and> 2 = nat (num_epochs (toy_config 2 None))
   \<and> snd (after_loop (toy_env auc_peak) (toy_config 2 None) toy_loaders) =
       state_after (toy_env auc_peak) (toy_config 2 None) toy_loaders 2
   \<and> best_auc (state_after (toy_env auc_peak) (toy_config 2 None) toy_loaders 2) =
       Max (insert 0 (epoch_val_auc (toy_env auc_peak) (toy_config 2 None) toy_loaders ` {..<2}))"
proof -
  have h1: "eval_loaders_nonempty toy_loaders"
    by (rule toy_hyps)
  have h2: "train_loaders_nonempty toy_loaders 2"
    by (rule toy_hyps)
  have h3: "(1::nat) \<le> 2"
    by simp
  have h4: "2 = nat (num_epochs (toy_config 2 None))"
    by (simp add: toy_config_fields)
  note run = best_snapshot_tracks_strict_improvements_over_zero
    [OF h1 h2 h3 h4, where E = "toy_env auc_peak"]
  from run have c1: "snd (after_loop (toy_env auc_peak) (toy_config 2 None) toy_loaders) =
       state_after (toy_env auc_peak) (toy_config 2 None) toy_loaders 2"
    by (rule conjunct1)
  from run have c2: "best_auc (state_after (toy_env auc_peak) (toy_config 2 None) toy_loaders 2) =
       Max (insert 0 (epoch_val_auc (toy_env auc_peak) (toy_config 2 None) toy_loaders ` {..<2}))"
    by blast
  from h1 h2 h3 h4 c1 c2 show ?thesis
    by blast
qed

text \<open>
  C2 as stated fails. Two epochs whose validation AUC is 0 both times: both attain the
  maximum 0 and the recorded best epoch is 0, but the snapshot kept is the initial model
  (parameters 0), not the model after the first epoch (parameters 2): no comparison
  \<^verbatim>\<open>cur_auc > best_auc\<close> ever succeeded against the initial \<^verbatim>\<open>best_auc = 0\<close>.
\<close>

theorem best_snapshot_is_initial_model_when_auc_stays_zero:
  "epoch_val_auc (toy_env auc_zero) (toy_config 2 None) toy_loaders 0 = 0
   \<and> epoch_val_auc (toy_env auc_zero) (toy_config 2 None) toy_loaders 1 = 0
   \<and> best_auc (snd (after_loop (toy_env auc_zero) (toy_config 2 None) toy_loaders)) = 0
   \<and> best_epoch (snd (after_loop (toy_env auc_zero) (toy_config 2 None) toy_loaders)) = 0
   \<and> model (state_after (toy_env auc_zero) (toy_config 2 None) toy_loaders 1) = 2
   \<and> best_model (snd (after_loop (toy_env auc_zero) (toy_config 2 None) toy_loaders)) = 0"
proof -
  let ?E = "toy_env auc_zero"
  let ?c = "toy_config 2 None"
  have two: "nat (num_epochs ?c) = Suc (Suc 0)"
    by (simp add: toy_config_fields)
  have s: "snd (after_loop ?E ?c toy_loaders) = state_after ?E ?c toy_loaders (Suc (Suc 0))"
    by (simp only: after_loop_state two)
  have a: "epoch_val_auc ?E ?c toy_loaders 0 = 0" "epoch_val_auc ?E ?c toy_loaders 1 = 0"
    by (simp_all add: toy_epoch_val_auc auc_zero_def)
  have m: "model (state_after ?E ?c toy_loaders 1) = 2"
    by (simp add: toy_model_after toy_initial_model)
  have best:
    "best_auc (state_after ?E ?c toy_loaders (Suc (Suc 0))) = 0"
    "best_epoch (state_after ?E ?c toy_loaders (Suc (Suc 0))) = 0"
    "best_model (state_after ?E ?c toy_loaders (Suc (Suc 0))) = 0"
    by (simp_all add: state_after_best state_after_start toy_hyps toy_epoch_val_auc
        toy_initial_model auc_zero_def)
  show ?thesis
    using a m best by (simp add: s)
qed

end
